theory Spec2Isabelle
  imports Complex_Main "HOL-Library.Char_ord" "HOL-Library.List_Lexorder"
begin

section \<open>JavaScript values\<close>

text \<open>
  The handlers of the API work on values that come from \<^verbatim>\<open>JSON.parse\<close>, from the
  authorizer's claims and from the items of the two DynamoDB tables. A number is a finite
  rational, \<^verbatim>\<open>NaN\<close> or an infinity (the rounding of a literal to a double is not modelled);
  a string is a list of bytes, the UTF-8 text that DynamoDB orders; an object is the list of
  its properties, keys distinct, in insertion order. \<open>Undefined\<close> is the value of a property
  that is absent.
\<close>

datatype number = Finite rat | NaN | PosInfinity | NegInfinity

datatype jsval =
    Undefined
  | Null
  | Bool bool
  | Num number
  | Str string
  | Arr "jsval list"
  | Obj "(string \<times> jsval) list"

text \<open>ToBoolean: what \<^verbatim>\<open>!x\<close>, \<^verbatim>\<open>x || y\<close> and \<^verbatim>\<open>if (x)\<close> test.\<close>

fun truthy :: "jsval \<Rightarrow> bool" where
  "truthy Undefined = False"
| "truthy Null = False"
| "truthy (Bool b) = b"
| "truthy (Num n) = (n \<noteq> Finite 0 \<and> n \<noteq> NaN)"
| "truthy (Str s) = (s \<noteq> [])"
| "truthy (Arr xs) = True"
| "truthy (Obj kvs) = True"

text \<open>\<^verbatim>\<open>a || b\<close>\<close>

definition js_or :: "jsval \<Rightarrow> jsval \<Rightarrow> jsval" where
  "js_or a b = (if truthy a then a else b)"

text \<open>
  Reading a named property, as the destructuring patterns of the handlers do. None of the
  names the handlers read is a property of a string, a number, a boolean or an array, so
  every value but an object gives \<^verbatim>\<open>undefined\<close>. Destructuring \<^verbatim>\<open>null\<close> or
  \<^verbatim>\<open>undefined\<close> throws a TypeError: \<open>destructurable\<close> is false of them.
\<close>

fun get_prop :: "jsval \<Rightarrow> string \<Rightarrow> jsval" where
  "get_prop (Obj kvs) k = (case map_of kvs k of Some v \<Rightarrow> v | None \<Rightarrow> Undefined)"
| "get_prop _ k = Undefined"

fun destructurable :: "jsval \<Rightarrow> bool" where
  "destructurable Undefined = False"
| "destructurable Null = False"
| "destructurable _ = True"

datatype js_error = SyntaxError | TypeError

section \<open>JSON.stringify\<close>

text \<open>
  The body of a response is \<^verbatim>\<open>JSON.stringify(body)\<close>. The model keeps the document
  that is written as a tree, not its text: a property whose value is \<^verbatim>\<open>undefined\<close> is
  left out, \<^verbatim>\<open>undefined\<close> in an array is written \<^verbatim>\<open>null\<close>, and so are \<^verbatim>\<open>NaN\<close> and the
  infinities. \<open>None\<close> is the \<^verbatim>\<open>undefined\<close> that \<^verbatim>\<open>JSON.stringify(undefined)\<close> returns.
\<close>

datatype json =
    JNull
  | JBool bool
  | JNum rat
  | JStr string
  | JArr "json list"
  | JObj "(string \<times> json) list"

fun json_of_number :: "number \<Rightarrow> json" where
  "json_of_number (Finite r) = JNum r"
| "json_of_number NaN = JNull"
| "json_of_number PosInfinity = JNull"
| "json_of_number NegInfinity = JNull"

fun JSON_stringify :: "jsval \<Rightarrow> json option"
and stringify_elems :: "jsval list \<Rightarrow> json list"
and stringify_props :: "(string \<times> jsval) list \<Rightarrow> (string \<times> json) list" where
  "JSON_stringify Undefined = None"
| "JSON_stringify Null = Some JNull"
| "JSON_stringify (Bool b) = Some (JBool b)"
| "JSON_stringify (Num n) = Some (json_of_number n)"
| "JSON_stringify (Str s) = Some (JStr s)"
| "JSON_stringify (Arr xs) = Some (JArr (stringify_elems xs))"
| "JSON_stringify (Obj kvs) = Some (JObj (stringify_props kvs))"
| "stringify_elems [] = []"
| "stringify_elems (x # xs) =
     (case JSON_stringify x of None \<Rightarrow> JNull | Some j \<Rightarrow> j) # stringify_elems xs"
| "stringify_props [] = []"
| "stringify_props ((k, v) # kvs) =
     (case JSON_stringify v of
        None \<Rightarrow> stringify_props kvs
      | Some j \<Rightarrow> (k, j) # stringify_props kvs)"

section \<open>Responses\<close>

record response =
  statusCode :: nat
  headers :: "(string \<times> string) list"
  body :: "json option"

definition corsHeaders :: "(string \<times> string) list" where
  "corsHeaders =
     [(''Access-Control-Allow-Origin'', ''*''),
      (''Access-Control-Allow-Headers'', ''Content-Type, Authorization''),
      (''Access-Control-Allow-Methods'', ''OPTIONS, POST, GET''),
      (''Content-Type'', ''application/json'')]"

definition formatResponse :: "nat \<Rightarrow> jsval \<Rightarrow> response" where
  "formatResponse code b =
     \<lparr>statusCode = code, headers = corsHeaders, body = JSON_stringify b\<rparr>"

section \<open>The request\<close>

text \<open>
  Of the API Gateway event the handlers read four things:
  \<^item> \<open>cognito_username\<close>: \<^verbatim>\<open>event.requestContext?.authorizer?.claims?.['cognito:username']\<close>,
    \<open>Undefined\<close> when a link of the chain is absent;
  \<^item> \<open>parsed_body\<close>: the outcome of \<^verbatim>\<open>JSON.parse(event.body)\<close>, \<open>None\<close> when it throws
    (text that is not JSON); a request without a body has the body \<^verbatim>\<open>null\<close>, which
    parses to \<^verbatim>\<open>null\<close>;
  \<^item> \<open>queryStringParameters\<close> and \<open>pathParameters\<close>: \<open>None\<close> is \<^verbatim>\<open>null\<close>.
\<close>

record event =
  cognito_username :: jsval
  parsed_body :: "jsval option"
  queryStringParameters :: "(string \<times> string) list option"
  pathParameters :: "(string \<times> string) list option"

definition getUsernameFromToken :: "event \<Rightarrow> jsval" where
  "getUsernameFromToken ev = js_or (cognito_username ev) Null"

section \<open>The two DynamoDB tables\<close>

text \<open>
  An item is a record of its attributes; an attribute that the item does not have is
  \<open>Undefined\<close> (the document client leaves an \<^verbatim>\<open>undefined\<close> property out of the item it
  writes). The key attribute \<^verbatim>\<open>id\<close> of both tables is a string. A table is the list of its
  items in the order a scan returns them, and a scan is modelled as reading the whole table
  in one page.
\<close>

record table_item =
  table_id :: string
  number :: jsval
  places :: jsval
  isVip :: jsval
  minOrder :: jsval

record reservation_item =
  reservation_id :: string
  tableId :: jsval
  tableNumber :: jsval
  clientName :: jsval
  phoneNumber :: jsval
  username :: jsval
  date :: jsval
  time :: jsval
  slotTimeEnd :: jsval
  createdAt :: jsval

record store =
  tables_table :: "table_item list"
  reservations_table :: "reservation_item list"

text \<open>
  What one invocation gets from outside: the identifier \<^verbatim>\<open>uuidv4()\<close> returns, the text of
  \<^verbatim>\<open>new Date().toISOString()\<close>, and for each call of the document client whether its
  promise rejects (the table cannot be reached, or the service refuses the request).
\<close>

record env =
  uuidv4 :: string
  now_iso :: string
  scan_tables_rejects :: bool
  scan_reservations_rejects :: bool
  put_rejects :: bool
  get_rejects :: bool

datatype store_error = StoreError

subsection \<open>Comparison in a filter expression\<close>

text \<open>
  \<^verbatim>\<open>a = b\<close> holds when both operands exist, have the same type and the same value.
  \<^verbatim>\<open>x BETWEEN lo AND hi\<close> is \<^verbatim>\<open>lo <= x\<close> and \<^verbatim>\<open>x <= hi\<close>; the order is defined on two
  strings (byte by byte) and on two numbers, and a comparison of operands of different or
  unordered types is false.
\<close>

fun ddb_eq :: "jsval \<Rightarrow> jsval \<Rightarrow> bool" where
  "ddb_eq Undefined _ = False"
| "ddb_eq _ Undefined = False"
| "ddb_eq a b = (a = b)"

fun ddb_le :: "jsval \<Rightarrow> jsval \<Rightarrow> bool" where
  "ddb_le (Str s) (Str t) = (s \<le> t)"
| "ddb_le (Num (Finite x)) (Num (Finite y)) = (x \<le> y)"
| "ddb_le _ _ = False"

definition ddb_between :: "jsval \<Rightarrow> jsval \<Rightarrow> jsval \<Rightarrow> bool" where
  "ddb_between x lo hi = (ddb_le lo x \<and> ddb_le x hi)"

subsection \<open>Scan, put and get\<close>

definition dynamodb_scan :: "bool \<Rightarrow> 'a list \<Rightarrow> ('a \<Rightarrow> bool) \<Rightarrow> store_error + 'a list" where
  "dynamodb_scan rejects items flt = (if rejects then Inl StoreError else Inr (filter flt items))"

text \<open>
  A put replaces the item that has the same key, or adds the item. A put that rejects has
  written nothing.
\<close>

definition put_item :: "('a \<Rightarrow> string) \<Rightarrow> 'a \<Rightarrow> 'a list \<Rightarrow> 'a list" where
  "put_item key item items =
     (if list_ex (\<lambda>x. key x = key item) items
      then map (\<lambda>x. if key x = key item then item else x) items
      else items @ [item])"

definition dynamodb_put ::
  "bool \<Rightarrow> ('a \<Rightarrow> string) \<Rightarrow> 'a \<Rightarrow> 'a list \<Rightarrow> store_error + 'a list" where
  "dynamodb_put rejects key item items =
     (if rejects then Inl StoreError else Inr (put_item key item items))"

section \<open>POST /reservations\<close>

text \<open>
  The filter of the scan for existing reservations:
  \<^verbatim>\<open>tableId = :tableId AND #date = :date AND
  (#time BETWEEN :start AND :end OR :start BETWEEN #time AND slotTimeEnd)\<close>
\<close>

definition conflict_filter ::
  "jsval \<Rightarrow> jsval \<Rightarrow> jsval \<Rightarrow> jsval \<Rightarrow> reservation_item \<Rightarrow> bool" where
  "conflict_filter tid dt start end r =
     (ddb_eq (tableId r) tid \<and> ddb_eq (date r) dt \<and>
      (ddb_between (time r) start end \<or> ddb_between start (time r) (slotTimeEnd r)))"

definition unauthorized :: response where
  "unauthorized = formatResponse 401 (Obj [(''message'', Str ''Unauthorized'')])"

definition internal_error :: response where
  "internal_error = formatResponse 500 (Obj [(''message'', Str ''Internal Server Error'')])"

definition missing_fields :: response where
  "missing_fields = formatResponse 400 (Obj [(''message'', Str ''Missing required fields.'')])"

definition table_not_found :: response where
  "table_not_found = formatResponse 400 (Obj [(''message'', Str ''Table not found'')])"

definition slot_conflict :: response where
  "slot_conflict =
     formatResponse 400 (Obj [(''message'', Str ''Table already reserved for the selected time.'')])"

definition reservation_created :: "string \<Rightarrow> response" where
  "reservation_created rid =
     formatResponse 200
       (Obj [(''reservationId'', Str rid), (''message'', Str ''Reservation created successfully.'')])"

text \<open>
  The result is the response, or the error the handler throws (the parse of the body and
  its destructuring stand before the \<^verbatim>\<open>try\<close>), and the store after the call.
\<close>

definition handleCreateReservation ::
  "env \<Rightarrow> event \<Rightarrow> store \<Rightarrow> (js_error + response) \<times> store" where
  "handleCreateReservation e ev st =
    (let user = getUsernameFromToken ev in
     if \<not> truthy user then (Inr unauthorized, st)
     else case parsed_body ev of
       None \<Rightarrow> (Inl SyntaxError, st)
     | Some b \<Rightarrow>
        (if \<not> destructurable b then (Inl TypeError, st)
         else
          let tableNumber' = get_prop b ''tableNumber'';
              clientName' = get_prop b ''clientName'';
              phoneNumber' = get_prop b ''phoneNumber'';
              date' = get_prop b ''date'';
              slotTimeStart' = get_prop b ''slotTimeStart'';
              slotTimeEnd' = get_prop b ''slotTimeEnd''
          in
          if \<not> truthy tableNumber' \<or> \<not> truthy date' \<or> \<not> truthy slotTimeStart' \<or>
             \<not> truthy slotTimeEnd'
          then (Inr missing_fields, st)
          else
           (case dynamodb_scan (scan_tables_rejects e) (tables_table st)
                   (\<lambda>t. ddb_eq (number t) tableNumber') of
              Inl err \<Rightarrow> (Inr internal_error, st)
            | Inr [] \<Rightarrow> (Inr table_not_found, st)
            | Inr (table # others) \<Rightarrow>
               (let tableId' = Str (table_id table) in
                case dynamodb_scan (scan_reservations_rejects e) (reservations_table st)
                       (conflict_filter tableId' date' slotTimeStart' slotTimeEnd') of
                  Inl err \<Rightarrow> (Inr internal_error, st)
                | Inr existingReservations \<Rightarrow>
                   (if length existingReservations > 0 then (Inr slot_conflict, st)
                    else
                     let reservation =
                           \<lparr>reservation_id = uuidv4 e,
                            tableId = tableId',
                            tableNumber = number table,
                            clientName = clientName',
                            phoneNumber = phoneNumber',
                            username = user,
                            date = date',
                            time = slotTimeStart',
                            slotTimeEnd = slotTimeEnd',
                            createdAt = Str (now_iso e)\<rparr>
                     in
                     (case dynamodb_put (put_rejects e) reservation_id reservation
                             (reservations_table st) of
                        Inl err \<Rightarrow> (Inr internal_error, st)
                      | Inr written \<Rightarrow>
                         (Inr (reservation_created (reservation_id reservation)),
                          st\<lparr>reservations_table := written\<rparr>)))))))"

text \<open>The parts of the handler, named for the statements below.\<close>

definition authenticated :: "event \<Rightarrow> bool" where
  "authenticated ev = truthy (getUsernameFromToken ev)"

definition validated :: "jsval \<Rightarrow> bool" where
  "validated rq =
     (truthy (get_prop rq ''tableNumber'') \<and> truthy (get_prop rq ''date'') \<and>
      truthy (get_prop rq ''slotTimeStart'') \<and> truthy (get_prop rq ''slotTimeEnd''))"

definition missing_or_empty :: "jsval \<Rightarrow> bool" where
  "missing_or_empty v = (v = Undefined \<or> v = Str [])"

definition matching_tables :: "store \<Rightarrow> jsval \<Rightarrow> table_item list" where
  "matching_tables st rq =
     filter (\<lambda>t. ddb_eq (number t) (get_prop rq ''tableNumber'')) (tables_table st)"

definition conflicting :: "store \<Rightarrow> jsval \<Rightarrow> table_item \<Rightarrow> reservation_item list" where
  "conflicting st rq table =
     filter (conflict_filter (Str (table_id table)) (get_prop rq ''date'')
               (get_prop rq ''slotTimeStart'') (get_prop rq ''slotTimeEnd''))
       (reservations_table st)"

definition new_reservation :: "env \<Rightarrow> jsval \<Rightarrow> jsval \<Rightarrow> table_item \<Rightarrow> reservation_item" where
  "new_reservation e user rq table =
     \<lparr>reservation_id = uuidv4 e,
      tableId = Str (table_id table),
      tableNumber = number table,
      clientName = get_prop rq ''clientName'',
      phoneNumber = get_prop rq ''phoneNumber'',
      username = user,
      date = get_prop rq ''date'',
      time = get_prop rq ''slotTimeStart'',
      slotTimeEnd = get_prop rq ''slotTimeEnd'',
      createdAt = Str (now_iso e)\<rparr>"

definition succeeded :: "js_error + response \<Rightarrow> bool" where
  "succeeded x = (case x of Inl err \<Rightarrow> False | Inr resp \<Rightarrow> statusCode resp = 200)"

text \<open>
  The overlap test in the words of the specification, for a requested interval \<open>[a,b)\<close>
  and a stored interval \<open>[c,d)\<close>: \<^verbatim>\<open>a <= d <= b OR c <= a <= d\<close>.
\<close>

definition spec_overlap :: "string \<Rightarrow> string \<Rightarrow> string \<Rightarrow> string \<Rightarrow> bool" where
  "spec_overlap a b c d = ((a \<le> d \<and> d \<le> b) \<or> (c \<le> a \<and> a \<le> d))"

section \<open>GET /reservations\<close>

definition reservation_view :: "reservation_item \<Rightarrow> jsval" where
  "reservation_view item =
     Obj [(''tableNumber'', tableNumber item),
          (''clientName'', clientName item),
          (''phoneNumber'', phoneNumber item),
          (''date'', date item),
          (''slotTimeStart'', time item),
          (''slotTimeEnd'', slotTimeEnd item)]"

text \<open>\<^verbatim>\<open>(event.queryStringParameters || {}).user\<close>\<close>

definition query_user :: "event \<Rightarrow> jsval" where
  "query_user ev =
     (case queryStringParameters ev of
        None \<Rightarrow> Undefined
      | Some q \<Rightarrow> (case map_of q ''user'' of None \<Rightarrow> Undefined | Some u \<Rightarrow> Str u))"

definition handleGetReservations :: "env \<Rightarrow> event \<Rightarrow> store \<Rightarrow> response" where
  "handleGetReservations e ev st =
    (let user = getUsernameFromToken ev in
     if \<not> truthy user then unauthorized
     else
      let flt = (if truthy (query_user ev)
                 then (\<lambda>item. ddb_eq (username item) (query_user ev))
                 else (\<lambda>item. True))
      in
      case dynamodb_scan (scan_reservations_rejects e) (reservations_table st) flt of
        Inl err \<Rightarrow> internal_error
      | Inr items \<Rightarrow>
         formatResponse 200 (Obj [(''reservations'', Arr (map reservation_view items))]))"

section \<open>A restaurant to run the handlers on\<close>

definition table5 :: table_item where
  "table5 =
     \<lparr>table_id = ''T1'', number = Num (Finite 5), places = Num (Finite 4),
      isVip = Bool False, minOrder = Num (Finite 0)\<rparr>"

definition booking :: "string \<Rightarrow> string \<Rightarrow> string \<Rightarrow> string \<Rightarrow> reservation_item" where
  "booking rid who start end =
     \<lparr>reservation_id = rid, tableId = Str ''T1'', tableNumber = Num (Finite 5),
      clientName = Str ''Bob'', phoneNumber = Str ''555-0100'', username = Str who,
      date = Str ''2024-06-01'', time = Str start, slotTimeEnd = Str end,
      createdAt = Str ''2024-05-30T12:00:00.000Z''\<rparr>"

definition restaurant :: "reservation_item list \<Rightarrow> store" where
  "restaurant rs = \<lparr>tables_table = [table5], reservations_table = rs\<rparr>"

definition slot_request :: "string \<Rightarrow> string \<Rightarrow> jsval" where
  "slot_request start end =
     Obj [(''tableNumber'', Num (Finite 5)), (''date'', Str ''2024-06-01''),
          (''slotTimeStart'', Str start), (''slotTimeEnd'', Str end)]"

definition request_by :: "jsval \<Rightarrow> jsval option \<Rightarrow> event" where
  "request_by who b =
     \<lparr>cognito_username = who, parsed_body = b, queryStringParameters = None,
      pathParameters = None\<rparr>"

definition query_by :: "jsval \<Rightarrow> (string \<times> string) list option \<Rightarrow> event" where
  "query_by who q =
     \<lparr>cognito_username = who, parsed_body = None, queryStringParameters = q,
      pathParameters = None\<rparr>"

definition calm :: "string \<Rightarrow> env" where
  "calm rid =
     \<lparr>uuidv4 = rid, now_iso = ''2024-05-31T09:30:00.000Z'', scan_tables_rejects = False,
      scan_reservations_rejects = False, put_rejects = False, get_rejects = False\<rparr>"

section \<open>Number(string) and String(value)\<close>

text \<open>
  \<^verbatim>\<open>Number(s)\<close> of a string: the text is trimmed of white space and line terminators at
  both ends; the empty text is 0; a text that is a \<^verbatim>\<open>StrNumericLiteral\<close> has its value; every
  other text is \<^verbatim>\<open>NaN\<close>. The white space characters are given by their UTF-8 bytes.
\<close>

definition StrWhiteSpaceChar :: "string list" where
  "StrWhiteSpaceChar =
     [[CHR 0x09], [CHR 0x0B], [CHR 0x0C], [CHR 0x20], [CHR 0x0A], [CHR 0x0D],
      [CHR 0xC2, CHR 0xA0],
      [CHR 0xE1, CHR 0x9A, CHR 0x80],
      [CHR 0xE2, CHR 0x80, CHR 0x80], [CHR 0xE2, CHR 0x80, CHR 0x81],
      [CHR 0xE2, CHR 0x80, CHR 0x82], [CHR 0xE2, CHR 0x80, CHR 0x83],
      [CHR 0xE2, CHR 0x80, CHR 0x84], [CHR 0xE2, CHR 0x80, CHR 0x85],
      [CHR 0xE2, CHR 0x80, CHR 0x86], [CHR 0xE2, CHR 0x80, CHR 0x87],
      [CHR 0xE2, CHR 0x80, CHR 0x88], [CHR 0xE2, CHR 0x80, CHR 0x89],
      [CHR 0xE2, CHR 0x80, CHR 0x8A],
      [CHR 0xE2, CHR 0x80, CHR 0xA8], [CHR 0xE2, CHR 0x80, CHR 0xA9],
      [CHR 0xE2, CHR 0x80, CHR 0xAF],
      [CHR 0xE2, CHR 0x81, CHR 0x9F],
      [CHR 0xE3, CHR 0x80, CHR 0x80],
      [CHR 0xEF, CHR 0xBB, CHR 0xBF]]"

text \<open>Removing, from the front of \<open>s\<close>, every leading occurrence of one of the texts \<open>ws\<close>.\<close>

function strip_leading :: "string list \<Rightarrow> string \<Rightarrow> string" where
  "strip_leading ws s =
     (case find (\<lambda>w. w \<noteq> [] \<and> take (length w) s = w) ws of
        None \<Rightarrow> s
      | Some w \<Rightarrow> strip_leading ws (drop (length w) s))"
  by pat_completeness auto
termination
proof (relation "measure (\<lambda>(ws, s). length s)")
  show "wf (measure (\<lambda>(ws, s). length s))" by simp
next
  fix ws :: "string list" and s w :: string
  assume "find (\<lambda>w. w \<noteq> [] \<and> take (length w) s = w) ws = Some w"
  then have w: "w \<noteq> []" "take (length w) s = w"
    by (auto simp add: find_Some_iff)
  have "length (take (length w) s) \<le> length s"
    by simp
  with w have "0 < length w" "length w \<le> length s"
    by simp_all
  then have "length s - length w < length s"
    by arith
  then show "((ws, drop (length w) s), (ws, s)) \<in> measure (\<lambda>(ws, s). length s)"
    by simp
qed

declare strip_leading.simps [simp del]

definition trim :: "string \<Rightarrow> string" where
  "trim s =
     rev (strip_leading (map rev StrWhiteSpaceChar) (rev (strip_leading StrWhiteSpaceChar s)))"

definition is_digit :: "char \<Rightarrow> bool" where
  "is_digit c = (c \<in> set ''0123456789'')"

definition is_hex_digit :: "char \<Rightarrow> bool" where
  "is_hex_digit c = (c \<in> set ''0123456789abcdefABCDEF'')"

definition digit_value :: "char \<Rightarrow> nat" where
  "digit_value c =
     (if is_digit c then of_char c - 48
      else if c \<in> set ''abcdef'' then of_char c - 87
      else of_char c - 55)"

definition digits_value :: "nat \<Rightarrow> string \<Rightarrow> nat" where
  "digits_value base ds = foldl (\<lambda>n c. n * base + digit_value c) 0 ds"

definition DecimalDigits :: "string \<Rightarrow> bool" where
  "DecimalDigits s = (s \<noteq> [] \<and> list_all is_digit s)"

fun SignedInteger :: "string \<Rightarrow> bool" where
  "SignedInteger [] = False"
| "SignedInteger (c # s) =
     (if c = CHR ''+'' \<or> c = CHR ''-'' then DecimalDigits s else DecimalDigits (c # s))"

fun ExponentPart :: "string \<Rightarrow> bool" where
  "ExponentPart [] = False"
| "ExponentPart (c # s) = ((c = CHR ''e'' \<or> c = CHR ''E'') \<and> SignedInteger s)"

text \<open>
  \<^verbatim>\<open>Infinity\<close>, or digits, a point, optional digits and an optional exponent, or a point,
  digits and an optional exponent, or digits and an optional exponent.
\<close>

definition StrUnsignedDecimalLiteral :: "string \<Rightarrow> bool" where
  "StrUnsignedDecimalLiteral s =
     (s = ''Infinity'' \<or>
      (let i = takeWhile is_digit s; r = dropWhile is_digit s in
       case r of
         [] \<Rightarrow> i \<noteq> []
       | c # r' \<Rightarrow>
          if c = CHR ''.''
          then (let f = takeWhile is_digit r'; x = dropWhile is_digit r' in
                (i \<noteq> [] \<or> f \<noteq> []) \<and> (x = [] \<or> ExponentPart x))
          else i \<noteq> [] \<and> ExponentPart r))"

fun StrDecimalLiteral :: "string \<Rightarrow> bool" where
  "StrDecimalLiteral [] = False"
| "StrDecimalLiteral (c # s) =
     (if c = CHR ''+'' \<or> c = CHR ''-'' then StrUnsignedDecimalLiteral s
      else StrUnsignedDecimalLiteral (c # s))"

fun NonDecimalIntegerLiteral :: "string \<Rightarrow> bool" where
  "NonDecimalIntegerLiteral (z # p # ds) =
     (z = CHR ''0'' \<and> ds \<noteq> [] \<and>
      (if p = CHR ''b'' \<or> p = CHR ''B'' then list_all (\<lambda>c. c \<in> set ''01'') ds
       else if p = CHR ''o'' \<or> p = CHR ''O'' then list_all (\<lambda>c. c \<in> set ''01234567'') ds
       else if p = CHR ''x'' \<or> p = CHR ''X'' then list_all is_hex_digit ds
       else False))"
| "NonDecimalIntegerLiteral _ = False"

text \<open>
  The value of a literal. A value beyond the range of a double is an infinity; within the
  range the exact value stands for the double nearest to it.
\<close>

definition in_double_range :: "rat \<Rightarrow> number" where
  "in_double_range r =
     (if 2 ^ 1024 - 2 ^ 970 \<le> r then PosInfinity
      else if r \<le> - (2 ^ 1024 - 2 ^ 970) then NegInfinity
      else Finite r)"

definition scale10 :: "rat \<Rightarrow> int \<Rightarrow> rat" where
  "scale10 m k = (if 0 \<le> k then m * 10 ^ nat k else m / 10 ^ nat (- k))"

definition signed_value :: "string \<Rightarrow> int" where
  "signed_value s =
     (case s of
        [] \<Rightarrow> 0
      | c # ds \<Rightarrow>
         if c = CHR ''-'' then - int (digits_value 10 ds)
         else if c = CHR ''+'' then int (digits_value 10 ds)
         else int (digits_value 10 s))"

definition unsigned_decimal_value :: "string \<Rightarrow> number" where
  "unsigned_decimal_value s =
     (if s = ''Infinity'' then PosInfinity
      else
       let i = takeWhile is_digit s; r = dropWhile is_digit s;
           f = (case r of c # r' \<Rightarrow> if c = CHR ''.'' then takeWhile is_digit r' else [] | [] \<Rightarrow> []);
           x = (case r of c # r' \<Rightarrow> if c = CHR ''.'' then dropWhile is_digit r' else r | [] \<Rightarrow> []);
           k = signed_value (tl x)
       in in_double_range (scale10 (of_nat (digits_value 10 (i @ f))) (k - int (length f))))"

fun negate :: "number \<Rightarrow> number" where
  "negate (Finite r) = Finite (- r)"
| "negate NaN = NaN"
| "negate PosInfinity = NegInfinity"
| "negate NegInfinity = PosInfinity"

definition decimal_value :: "string \<Rightarrow> number" where
  "decimal_value s =
     (case s of
        [] \<Rightarrow> NaN
      | c # u \<Rightarrow>
         if c = CHR ''-'' then negate (unsigned_decimal_value u)
         else if c = CHR ''+'' then unsigned_decimal_value u
         else unsigned_decimal_value s)"

definition non_decimal_value :: "string \<Rightarrow> number" where
  "non_decimal_value s =
     (let p = s ! 1; ds = drop 2 s;
          base = (if p = CHR ''b'' \<or> p = CHR ''B'' then 2
                  else if p = CHR ''o'' \<or> p = CHR ''O'' then 8 else 16)
      in in_double_range (of_nat (digits_value base ds)))"

definition StringToNumber :: "string \<Rightarrow> number" where
  "StringToNumber s =
     (let t = trim s in
      if t = [] then Finite 0
      else if StrDecimalLiteral t then decimal_value t
      else if NonDecimalIntegerLiteral t then non_decimal_value t
      else NaN)"

text \<open>
  \<^verbatim>\<open>String(v)\<close>. The text of a number that is not an integer below \<open>10\<^sup>2\<^sup>1\<close> in size is
  the parameter \<open>frac_text\<close> (the shortest decimal that reads back as the same double).
  An array is its elements joined by commas, \<^verbatim>\<open>null\<close> and \<^verbatim>\<open>undefined\<close> elements empty;
  an object is \<^verbatim>\<open>[object Object]\<close>, and an object with a property \<^verbatim>\<open>toString\<close> of its own
  (which, parsed from JSON, is no function) cannot be converted: \<open>None\<close> is the TypeError.
\<close>

fun digits_of_nat :: "nat \<Rightarrow> string" where
  "digits_of_nat n =
     (if n < 10 then [char_of (48 + n)]
      else digits_of_nat (n div 10) @ [char_of (48 + n mod 10)])"

declare digits_of_nat.simps [simp del]

definition number_text :: "(rat \<Rightarrow> string) \<Rightarrow> number \<Rightarrow> string" where
  "number_text frac_text n =
     (case n of
        NaN \<Rightarrow> ''NaN''
      | PosInfinity \<Rightarrow> ''Infinity''
      | NegInfinity \<Rightarrow> ''-Infinity''
      | Finite r \<Rightarrow>
         if r = of_int \<lfloor>r\<rfloor> \<and> \<bar>r\<bar> < 10 ^ 21
         then (if r < 0 then ''-'' else '''') @ digits_of_nat (nat \<bar>\<lfloor>r\<rfloor>\<bar>)
         else frac_text r)"

fun join_comma :: "string list \<Rightarrow> string" where
  "join_comma [] = []"
| "join_comma [x] = x"
| "join_comma (x # y # ys) = x @ '','' @ join_comma (y # ys)"

fun sequence_option :: "'a option list \<Rightarrow> 'a list option" where
  "sequence_option [] = Some []"
| "sequence_option (None # xs) = None"
| "sequence_option (Some x # xs) = map_option ((#) x) (sequence_option xs)"

fun js_String :: "(rat \<Rightarrow> string) \<Rightarrow> jsval \<Rightarrow> string option"
and element_texts :: "(rat \<Rightarrow> string) \<Rightarrow> jsval list \<Rightarrow> string option list" where
  "js_String ft Undefined = Some ''undefined''"
| "js_String ft Null = Some ''null''"
| "js_String ft (Bool b) = Some (if b then ''true'' else ''false'')"
| "js_String ft (Num n) = Some (number_text ft n)"
| "js_String ft (Str s) = Some s"
| "js_String ft (Arr xs) = map_option join_comma (sequence_option (element_texts ft xs))"
| "js_String ft (Obj kvs) =
     (if ''toString'' \<in> set (map fst kvs) then None else Some ''[object Object]'')"
| "element_texts ft [] = []"
| "element_texts ft (x # xs) =
     (if x = Undefined \<or> x = Null then Some [] else js_String ft x) # element_texts ft xs"

section \<open>The table handlers\<close>

definition typeof_number :: "jsval \<Rightarrow> bool" where
  "typeof_number v = (case v of Num n \<Rightarrow> True | _ \<Rightarrow> False)"

definition typeof_boolean :: "jsval \<Rightarrow> bool" where
  "typeof_boolean v = (case v of Bool b \<Rightarrow> True | _ \<Rightarrow> False)"

definition invalid_table :: response where
  "invalid_table = formatResponse 400 (Obj [(''message'', Str ''Invalid table data.'')])"

definition table_not_found_404 :: response where
  "table_not_found_404 = formatResponse 404 (Obj [(''message'', Str ''Table not found'')])"

text \<open>
  \<^verbatim>\<open>({ id, number, places, isVip, minOrder }) =>
  ({ id: Number(id), number, places, isVip, minOrder: minOrder || 0 })\<close>
\<close>

definition table_view :: "table_item \<Rightarrow> jsval" where
  "table_view item =
     Obj [(''id'', Num (StringToNumber (table_id item))),
          (''number'', number item),
          (''places'', places item),
          (''isVip'', isVip item),
          (''minOrder'', js_or (minOrder item) (Num (Finite 0)))]"

definition handleGetTables :: "env \<Rightarrow> event \<Rightarrow> store \<Rightarrow> response" where
  "handleGetTables e ev st =
    (let user = getUsernameFromToken ev in
     if \<not> truthy user then unauthorized
     else
      case dynamodb_scan (scan_tables_rejects e) (tables_table st) (\<lambda>item. True) of
        Inl err \<Rightarrow> internal_error
      | Inr items \<Rightarrow> formatResponse 200 (Obj [(''tables'', Arr (map table_view items))]))"

text \<open>
  \<^verbatim>\<open>event.pathParameters?.tableId\<close>, and the get by key. The service refuses a key that is
  not a string, as it may refuse any call.
\<close>

definition path_tableId :: "event \<Rightarrow> jsval" where
  "path_tableId ev =
     (case pathParameters ev of
        None \<Rightarrow> Undefined
      | Some ps \<Rightarrow> (case map_of ps ''tableId'' of None \<Rightarrow> Undefined | Some k \<Rightarrow> Str k))"

definition dynamodb_get ::
  "bool \<Rightarrow> ('a \<Rightarrow> string) \<Rightarrow> 'a list \<Rightarrow> jsval \<Rightarrow> store_error + 'a option" where
  "dynamodb_get rejects key items k =
     (case k of
        Str s \<Rightarrow> if rejects then Inl StoreError else Inr (find (\<lambda>x. key x = s) items)
      | _ \<Rightarrow> Inl StoreError)"

definition handleGetTableById :: "env \<Rightarrow> event \<Rightarrow> store \<Rightarrow> response" where
  "handleGetTableById e ev st =
    (let user = getUsernameFromToken ev in
     if \<not> truthy user then unauthorized
     else
      let tableId' = path_tableId ev in
      case dynamodb_get (get_rejects e) table_id (tables_table st) tableId' of
        Inl err \<Rightarrow> internal_error
      | Inr None \<Rightarrow> table_not_found_404
      | Inr (Some item) \<Rightarrow> formatResponse 200 (table_view item))"

definition handleCreateTable ::
  "(rat \<Rightarrow> string) \<Rightarrow> env \<Rightarrow> event \<Rightarrow> store \<Rightarrow> (js_error + response) \<times> store" where
  "handleCreateTable ft e ev st =
    (let user = getUsernameFromToken ev in
     if \<not> truthy user then (Inr unauthorized, st)
     else case parsed_body ev of
       None \<Rightarrow> (Inl SyntaxError, st)
     | Some table \<Rightarrow>
        (if \<not> destructurable table then (Inl TypeError, st)
         else
          let number' = get_prop table ''number'';
              places' = get_prop table ''places'';
              isVip' = get_prop table ''isVip'';
              minOrder' = get_prop table ''minOrder''
          in
          if \<not> typeof_number number' \<or> \<not> typeof_number places' \<or> \<not> typeof_boolean isVip'
          then (Inr invalid_table, st)
          else
           (let tableId' = js_or (get_prop table ''id'') (Str (uuidv4 e)) in
            case js_String ft tableId' of
              None \<Rightarrow> (Inl TypeError, st)
            | Some text \<Rightarrow>
               (let tableData =
                      \<lparr>table_id = text, number = number', places = places', isVip = isVip',
                       minOrder = js_or minOrder' (Num (Finite 0))\<rparr>
                in
                case dynamodb_put (put_rejects e) table_id tableData (tables_table st) of
                  Inl err \<Rightarrow> (Inr internal_error, st)
                | Inr written \<Rightarrow>
                   (Inr (formatResponse 200 (Obj [(''id'', tableId')])),
                    st\<lparr>tables_table := written\<rparr>)))))"

text \<open>
  The text \<^verbatim>\<open>uuidv4()\<close> returns: 36 characters, groups of 8, 4, 4, 4 and 12 lower-case
  hexadecimal digits separated by hyphens.
\<close>

definition lower_hex :: "string \<Rightarrow> bool" where
  "lower_hex s = list_all (\<lambda>c. c \<in> set ''0123456789abcdef'') s"

definition is_uuid :: "string \<Rightarrow> bool" where
  "is_uuid s =
     (length s = 36 \<and>
      lower_hex (take 8 s) \<and> s ! 8 = CHR ''-'' \<and>
      lower_hex (take 4 (drop 9 s)) \<and> s ! 13 = CHR ''-'' \<and>
      lower_hex (take 4 (drop 14 s)) \<and> s ! 18 = CHR ''-'' \<and>
      lower_hex (take 4 (drop 19 s)) \<and> s ! 23 = CHR ''-'' \<and>
      lower_hex (drop 24 s))"

definition json_prop :: "json \<Rightarrow> string \<Rightarrow> json option" where
  "json_prop j k = (case j of JObj kvs \<Rightarrow> map_of kvs k | _ \<Rightarrow> None)"

definition table_request :: "jsval \<Rightarrow> event" where
  "table_request b =
     \<lparr>cognito_username = Str ''carol'', parsed_body = Some b, queryStringParameters = None,
      pathParameters = None\<rparr>"

definition table_query :: "string \<Rightarrow> event" where
  "table_query k =
     \<lparr>cognito_username = Str ''carol'', parsed_body = None, queryStringParameters = None,
      pathParameters = Some [(''tableId'', k)]\<rparr>"

definition new_table :: jsval where
  "new_table =
     Obj [(''number'', Num (Finite 5)), (''places'', Num (Finite 4)), (''isVip'', Bool False)]"

text \<open>The entry of a table in the body of a response: what is written for \<open>table_view\<close>.\<close>

definition table_json :: "table_item \<Rightarrow> json" where
  "table_json item = (case JSON_stringify (table_view item) of None \<Rightarrow> JNull | Some j \<Rightarrow> j)"

definition uuid_table :: table_item where
  "uuid_table =
     \<lparr>table_id = ''3f2504e0-4f89-41d3-9a0c-0305e82c3301'', number = Num (Finite 5),
      places = Num (Finite 4), isVip = Bool False, minOrder = Num (Finite 0)\<rparr>"

section \<open>Properties\<close>

subsection \<open>POST /reservations, branch by branch\<close>

lemma truthy_username: "truthy (getUsernameFromToken ev) = truthy (cognito_username ev)"
  by (simp add: getUsernameFromToken_def js_or_def)

lemma create_valid:
  assumes "authenticated ev" "parsed_body ev = Some rq" "destructurable rq" "validated rq"
  shows "handleCreateReservation e ev st =
    (if scan_tables_rejects e then (Inr internal_error, st)
     else case matching_tables st rq of
       [] \<Rightarrow> (Inr table_not_found, st)
     | table # others \<Rightarrow>
        if scan_reservations_rejects e then (Inr internal_error, st)
        else if conflicting st rq table \<noteq> [] then (Inr slot_conflict, st)
        else if put_rejects e then (Inr internal_error, st)
        else (Inr (reservation_created (uuidv4 e)),
              st\<lparr>reservations_table :=
                   put_item reservation_id (new_reservation e (getUsernameFromToken ev) rq table)
                     (reservations_table st)\<rparr>))"
  using assms
  by (simp add: handleCreateReservation_def authenticated_def validated_def Let_def
      dynamodb_scan_def dynamodb_put_def matching_tables_def conflicting_def new_reservation_def
      split: list.splits)

lemma create_unauthorized:
  "\<not> authenticated ev \<Longrightarrow> handleCreateReservation e ev st = (Inr unauthorized, st)"
  by (simp add: handleCreateReservation_def authenticated_def)

lemma create_unparsed:
  "authenticated ev \<Longrightarrow> parsed_body ev = None \<Longrightarrow>
   handleCreateReservation e ev st = (Inl SyntaxError, st)"
  by (simp add: handleCreateReservation_def authenticated_def)

lemma create_undestructurable:
  "authenticated ev \<Longrightarrow> parsed_body ev = Some rq \<Longrightarrow> \<not> destructurable rq \<Longrightarrow>
   handleCreateReservation e ev st = (Inl TypeError, st)"
  by (simp add: handleCreateReservation_def authenticated_def)

lemma create_invalid:
  "authenticated ev \<Longrightarrow> parsed_body ev = Some rq \<Longrightarrow> destructurable rq \<Longrightarrow> \<not> validated rq \<Longrightarrow>
   handleCreateReservation e ev st = (Inr missing_fields, st)"
  by (auto simp add: handleCreateReservation_def authenticated_def validated_def Let_def)

lemma status_codes:
  "statusCode unauthorized = 401" "statusCode missing_fields = 400"
  "statusCode table_not_found = 400" "statusCode slot_conflict = 400"
  "statusCode internal_error = 500" "statusCode (reservation_created rid) = 200"
  by (simp_all add: unauthorized_def missing_fields_def slot_conflict_def internal_error_def
      table_not_found_def reservation_created_def formatResponse_def)

lemma bodies:
  "body unauthorized = Some (JObj [(''message'', JStr ''Unauthorized'')])"
  "body missing_fields = Some (JObj [(''message'', JStr ''Missing required fields.'')])"
  "body table_not_found = Some (JObj [(''message'', JStr ''Table not found'')])"
  "body slot_conflict =
     Some (JObj [(''message'', JStr ''Table already reserved for the selected time.'')])"
  "body internal_error = Some (JObj [(''message'', JStr ''Internal Server Error'')])"
  "body (reservation_created rid) =
     Some (JObj [(''reservationId'', JStr rid),
                 (''message'', JStr ''Reservation created successfully.'')])"
  by (simp_all add: unauthorized_def missing_fields_def slot_conflict_def internal_error_def
      table_not_found_def reservation_created_def formatResponse_def)

lemma responses_distinct:
  "unauthorized \<noteq> missing_fields" "slot_conflict \<noteq> internal_error"
  "slot_conflict \<noteq> table_not_found" "slot_conflict \<noteq> reservation_created rid"
  "missing_fields \<noteq> internal_error" "missing_fields \<noteq> table_not_found"
  "missing_fields \<noteq> slot_conflict" "missing_fields \<noteq> reservation_created rid"
  by (simp_all add: unauthorized_def missing_fields_def slot_conflict_def internal_error_def
      table_not_found_def reservation_created_def formatResponse_def)

subsection \<open>The conflict filter\<close>

lemma ddb_eq_iff: "ddb_eq x y \<longleftrightarrow> x = y \<and> x \<noteq> Undefined"
  by (cases x; cases y) auto

lemma put_item_member: "item \<in> set (put_item key item items)"
  by (auto simp add: put_item_def list_ex_iff)

lemma conflict_filter_strings:
  assumes "dt \<noteq> Undefined"
  shows "conflict_filter (Str tid) dt (Str a) (Str b) r \<longleftrightarrow>
     tableId r = Str tid \<and> date r = dt \<and>
     (ddb_between (time r) (Str a) (Str b) \<or> ddb_between (Str a) (time r) (slotTimeEnd r))"
  using assms by (auto simp add: conflict_filter_def ddb_eq_iff)

lemma between_strings:
  "ddb_between (Str c) (Str a) (Str b) \<longleftrightarrow> a \<le> c \<and> c \<le> b"
  "ddb_between (Str a) (Str c) (Str d) \<longleftrightarrow> c \<le> a \<and> a \<le> d"
  by (simp_all add: ddb_between_def)

text \<open>
  Claim C1, as amended. For an authenticated, validated request for the interval \<open>[a,b)\<close>
  whose table number resolves to \<open>table\<close>, with both scans answered and the stored times
  strings: the handler answers \<open>slot_conflict\<close> exactly when some stored reservation of that
  table and date has an interval \<open>[c,d)\<close> with \<open>a \<le> c \<le> b\<close> (the stored start lies in the
  requested span) or \<open>c \<le> a \<le> d\<close> (the requested start lies in the stored span), the times
  compared as strings.
\<close>

theorem conflict_policy:
  assumes "authenticated ev" and "parsed_body ev = Some rq" and "destructurable rq"
    and "validated rq"
    and "get_prop rq ''slotTimeStart'' = Str a" and "get_prop rq ''slotTimeEnd'' = Str b"
    and "\<not> scan_tables_rejects e" and "\<not> scan_reservations_rejects e"
    and "matching_tables st rq = table # others"
    and "\<forall>r \<in> set (reservations_table st). \<exists>c d. time r = Str c \<and> slotTimeEnd r = Str d"
  shows "fst (handleCreateReservation e ev st) = Inr slot_conflict \<longleftrightarrow>
     (\<exists>r \<in> set (reservations_table st). \<exists>c d.
         tableId r = Str (table_id table) \<and> date r = get_prop rq ''date'' \<and>
         time r = Str c \<and> slotTimeEnd r = Str d \<and>
         ((a \<le> c \<and> c \<le> b) \<or> (c \<le> a \<and> a \<le> d)))"
proof -
  have dt: "get_prop rq ''date'' \<noteq> Undefined"
    using assms(4) by (auto simp add: validated_def)
  have "fst (handleCreateReservation e ev st) = Inr slot_conflict \<longleftrightarrow>
        conflicting st rq table \<noteq> []"
    using assms by (simp add: create_valid responses_distinct responses_distinct[symmetric])
  also have "\<dots> \<longleftrightarrow> (\<exists>r \<in> set (reservations_table st).
       conflict_filter (Str (table_id table)) (get_prop rq ''date'') (Str a) (Str b) r)"
    using assms(5,6) by (simp add: conflicting_def filter_empty_conv)
  also have "\<dots> \<longleftrightarrow> (\<exists>r \<in> set (reservations_table st). \<exists>c d.
         tableId r = Str (table_id table) \<and> date r = get_prop rq ''date'' \<and>
         time r = Str c \<and> slotTimeEnd r = Str d \<and>
         ((a \<le> c \<and> c \<le> b) \<or> (c \<le> a \<and> a \<le> d)))"
  proof (rule bex_cong[OF refl])
    fix r assume "r \<in> set (reservations_table st)"
    then obtain c d where cd: "time r = Str c" "slotTimeEnd r = Str d"
      using assms(10) by blast
    show "conflict_filter (Str (table_id table)) (get_prop rq ''date'') (Str a) (Str b) r \<longleftrightarrow>
      (\<exists>c d. tableId r = Str (table_id table) \<and> date r = get_prop rq ''date'' \<and>
         time r = Str c \<and> slotTimeEnd r = Str d \<and>
         ((a \<le> c \<and> c \<le> b) \<or> (c \<le> a \<and> a \<le> d)))"
      using cd by (simp add: conflict_filter_strings[OF dt] between_strings)
  qed
  finally show ?thesis .
qed


lemmas example_defs =
  restaurant_def table5_def booking_def slot_request_def request_by_def query_by_def calm_def

lemma example_request:
  "authenticated (request_by (Str ''bob'') b)"
  "parsed_body (request_by who b) = b"
  "destructurable (slot_request s t)"
  "get_prop (slot_request s t) ''tableNumber'' = Num (Finite 5)"
  "get_prop (slot_request s t) ''date'' = Str ''2024-06-01''"
  "get_prop (slot_request s t) ''slotTimeStart'' = Str s"
  "get_prop (slot_request s t) ''slotTimeEnd'' = Str t"
  "get_prop (slot_request s t) ''clientName'' = Undefined"
  "get_prop (slot_request s t) ''phoneNumber'' = Undefined"
  "matching_tables (restaurant rs) (slot_request s t) = [table5]"
  by (simp_all add: example_defs authenticated_def truthy_username matching_tables_def)

lemma example_empty: "conflicting (restaurant []) rq table = []"
  by (simp add: conflicting_def restaurant_def)

lemma example_validated: "s \<noteq> [] \<Longrightarrow> t \<noteq> [] \<Longrightarrow> validated (slot_request s t)"
  by (simp add: validated_def example_request)

lemma example_env:
  "\<not> scan_tables_rejects (calm rid)" "\<not> scan_reservations_rejects (calm rid)"
  "\<not> put_rejects (calm rid)" "uuidv4 (calm rid) = rid"
  by (simp_all add: calm_def)

text \<open>
  The theorem at the example of the specification: with \<open>[10:00,11:00)\<close> booked, a request
  for \<open>[10:30,10:45)\<close> is answered \<open>slot_conflict\<close>.
\<close>

theorem conflict_policy_witness:
  "fst (handleCreateReservation (calm ''R2'')
          (request_by (Str ''bob'') (Some (slot_request ''10:30'' ''10:45'')))
          (restaurant [booking ''R1'' ''alice'' ''10:00'' ''11:00''])) = Inr slot_conflict"
  using conflict_policy [of "request_by (Str ''bob'') (Some (slot_request ''10:30'' ''10:45''))"
      "slot_request ''10:30'' ''10:45''" "''10:30''" "''10:45''" "calm ''R2''"
      "restaurant [booking ''R1'' ''alice'' ''10:00'' ''11:00'']" table5 "[]"]
  by (simp add: example_request example_validated example_env)
     (simp add: restaurant_def booking_def table5_def)

text \<open>
  Claim C1 as the specification words it fails: with \<open>[10:00,11:00)\<close> booked, a request for
  \<open>[09:00,10:30)\<close> is answered \<open>slot_conflict\<close> (the stored start 10:00 lies between 09:00
  and 10:30), while neither \<open>a \<le> d \<le> b\<close> nor \<open>c \<le> a \<le> d\<close> holds.
\<close>

theorem conflict_policy_counterexample:
  "fst (handleCreateReservation (calm ''R2'')
          (request_by (Str ''bob'') (Some (slot_request ''09:00'' ''10:30'')))
          (restaurant [booking ''R1'' ''alice'' ''10:00'' ''11:00''])) = Inr slot_conflict
   \<and> \<not> spec_overlap ''09:00'' ''10:30'' ''10:00'' ''11:00''"
proof -
  have "conflicting (restaurant [booking ''R1'' ''alice'' ''10:00'' ''11:00''])
          (slot_request ''09:00'' ''10:30'') table5 \<noteq> []"
    by (simp add: conflicting_def example_request conflict_filter_def ddb_between_def
        restaurant_def booking_def table5_def)
  then show ?thesis
    by (simp add: create_valid example_request example_validated example_env spec_overlap_def)
qed


subsection \<open>Success and failure\<close>

lemma create_succeededD:
  assumes "succeeded (fst (handleCreateReservation e ev st))"
  shows "\<exists>rq table others.
     authenticated ev \<and> parsed_body ev = Some rq \<and> destructurable rq \<and> validated rq \<and>
     \<not> scan_tables_rejects e \<and> \<not> scan_reservations_rejects e \<and> \<not> put_rejects e \<and>
     matching_tables st rq = table # others \<and> conflicting st rq table = [] \<and>
     handleCreateReservation e ev st =
       (Inr (reservation_created (uuidv4 e)),
        st\<lparr>reservations_table :=
             put_item reservation_id (new_reservation e (getUsernameFromToken ev) rq table)
               (reservations_table st)\<rparr>)"
proof (cases "authenticated ev")
  case False
  with assms show ?thesis
    by (simp add: create_unauthorized succeeded_def status_codes)
next
  case auth: True
  show ?thesis
  proof (cases "parsed_body ev")
    case None
    with assms auth show ?thesis
      by (simp add: create_unparsed succeeded_def)
  next
    case (Some rq)
    show ?thesis
    proof (cases "destructurable rq \<and> validated rq")
      case False
      then consider "\<not> destructurable rq" | "destructurable rq" "\<not> validated rq"
        by blast
      then show ?thesis
      proof cases
        case 1
        with assms auth Some show ?thesis
          by (simp add: create_undestructurable succeeded_def)
      next
        case 2
        with assms auth Some show ?thesis
          by (simp add: create_invalid succeeded_def status_codes)
      qed
    next
      case True
      with assms auth Some show ?thesis
        by (auto simp add: create_valid succeeded_def status_codes
            split: if_splits list.splits)
    qed
  qed
qed

lemma create_failed_frame:
  assumes "\<not> succeeded (fst (handleCreateReservation e ev st))"
  shows "snd (handleCreateReservation e ev st) = st \<and>
     fst (handleCreateReservation e ev st) \<in>
       {Inr unauthorized, Inl SyntaxError, Inl TypeError, Inr missing_fields,
        Inr table_not_found, Inr slot_conflict, Inr internal_error}"
proof (cases "authenticated ev")
  case False
  then show ?thesis by (simp add: create_unauthorized)
next
  case auth: True
  show ?thesis
  proof (cases "parsed_body ev")
    case None
    with auth show ?thesis by (simp add: create_unparsed)
  next
    case (Some rq)
    show ?thesis
    proof (cases "destructurable rq \<and> validated rq")
      case False
      then consider "\<not> destructurable rq" | "destructurable rq" "\<not> validated rq"
        by blast
      then show ?thesis
      proof cases
        case 1
        with auth Some show ?thesis by (simp add: create_undestructurable)
      next
        case 2
        with auth Some show ?thesis by (simp add: create_invalid)
      qed
    next
      case True
      with assms auth Some show ?thesis
        by (auto simp add: create_valid succeeded_def status_codes
            split: if_splits list.splits)
    qed
  qed
qed

text \<open>
  Claim C2. Let a first request succeed and leave the store \<open>st1\<close>. A second authenticated
  request for the same table number and date, for a string interval \<open>[a,b)\<close> that overlaps
  the first one's \<open>[c,d)\<close> (\<open>a < d\<close> and \<open>c < b\<close> in the order of strings), does not succeed
  on \<open>st1\<close> and leaves it as it is: the reservation the first request wrote is among
  the items the conflict filter selects, and the answer is \<open>slot_conflict\<close> whenever the two
  scans are answered. An identical request for a non-empty interval is the case \<open>a = c\<close>,
  \<open>b = d\<close>.
\<close>

theorem sequential_overlap_rejected:
  assumes first: "succeeded (fst (handleCreateReservation e1 ev1 st))"
    and st1: "st1 = snd (handleCreateReservation e1 ev1 st)"
    and rq1: "parsed_body ev1 = Some rq1"
    and second: "authenticated ev2" "parsed_body ev2 = Some rq2" "destructurable rq2"
    and same_table: "get_prop rq2 ''tableNumber'' = get_prop rq1 ''tableNumber''"
    and same_date: "get_prop rq2 ''date'' = get_prop rq1 ''date''"
    and slot1: "get_prop rq1 ''slotTimeStart'' = Str c" "get_prop rq1 ''slotTimeEnd'' = Str d"
    and slot2: "get_prop rq2 ''slotTimeStart'' = Str a" "get_prop rq2 ''slotTimeEnd'' = Str b"
    and overlap: "a < d" "c < b"
  shows "handleCreateReservation e2 ev2 st1 =
     (Inr (if a = [] then missing_fields
           else if scan_tables_rejects e2 \<or> scan_reservations_rejects e2 then internal_error
           else slot_conflict), st1)
     \<and> \<not> succeeded (fst (handleCreateReservation e2 ev2 st1))
     \<and> (\<exists>table. new_reservation e1 (getUsernameFromToken ev1) rq1 table
            \<in> set (conflicting st1 rq2 table))"
proof -
  from create_succeededD[OF first] rq1 obtain table others where
    v1: "validated rq1" and
    mt: "matching_tables st rq1 = table # others" and
    res: "handleCreateReservation e1 ev1 st =
       (Inr (reservation_created (uuidv4 e1)),
        st\<lparr>reservations_table :=
             put_item reservation_id (new_reservation e1 (getUsernameFromToken ev1) rq1 table)
               (reservations_table st)\<rparr>)"
    by auto
  let ?r = "new_reservation e1 (getUsernameFromToken ev1) rq1 table"
  have st1': "st1 = st\<lparr>reservations_table := put_item reservation_id ?r (reservations_table st)\<rparr>"
    using st1 res by simp
  have mt2: "matching_tables st1 rq2 = table # others"
    using mt same_table by (simp add: st1' matching_tables_def)
  have mem: "?r \<in> set (reservations_table st1)"
    by (simp add: st1' put_item_member)
  have dt: "get_prop rq1 ''date'' \<noteq> Undefined"
    using v1 by (auto simp add: validated_def)
  have "(a \<le> c \<and> c \<le> b) \<or> (c \<le> a \<and> a \<le> d)"
    using overlap by auto
  then have "conflict_filter (Str (table_id table)) (get_prop rq2 ''date'')
      (get_prop rq2 ''slotTimeStart'') (get_prop rq2 ''slotTimeEnd'') ?r"
    using dt by (simp add: slot1 slot2 same_date conflict_filter_def ddb_eq_iff
        new_reservation_def ddb_between_def)
  with mem have seen: "?r \<in> set (conflicting st1 rq2 table)"
    by (simp add: conflicting_def)
  then have cf: "conflicting st1 rq2 table \<noteq> []"
    by auto
  have b: "b \<noteq> []" using overlap(2) by auto
  have v2: "validated rq2 \<longleftrightarrow> a \<noteq> []"
    using v1 b by (simp add: validated_def same_table same_date slot2)
  have eq: "handleCreateReservation e2 ev2 st1 =
     (Inr (if a = [] then missing_fields
           else if scan_tables_rejects e2 \<or> scan_reservations_rejects e2 then internal_error
           else slot_conflict), st1)"
  proof (cases "a = []")
    case True
    with v2 second show ?thesis by (simp add: create_invalid)
  next
    case False
    with v2 second mt2 cf show ?thesis by (simp add: create_valid)
  qed
  moreover have "\<not> succeeded (fst (handleCreateReservation e2 ev2 st1))"
    by (simp add: eq succeeded_def status_codes)
  ultimately show ?thesis
    using seen by blast
qed

text \<open>
  The scenario of the specification: the request for table 5 on 2024-06-01 from 18:00 to
  19:00 succeeds on an empty reservation table, and the same request again is answered
  \<open>slot_conflict\<close>.
\<close>

theorem sequential_overlap_rejected_witness:
  "succeeded (fst (handleCreateReservation (calm ''R1'')
       (request_by (Str ''bob'') (Some (slot_request ''18:00'' ''19:00''))) (restaurant [])))
   \<and> handleCreateReservation (calm ''R2'')
       (request_by (Str ''bob'') (Some (slot_request ''18:00'' ''19:00'')))
       (snd (handleCreateReservation (calm ''R1'')
          (request_by (Str ''bob'') (Some (slot_request ''18:00'' ''19:00''))) (restaurant [])))
     = (Inr slot_conflict,
        snd (handleCreateReservation (calm ''R1'')
          (request_by (Str ''bob'') (Some (slot_request ''18:00'' ''19:00''))) (restaurant [])))"
proof -
  have first: "succeeded (fst (handleCreateReservation (calm ''R1'')
       (request_by (Str ''bob'') (Some (slot_request ''18:00'' ''19:00''))) (restaurant [])))"
    by (simp add: create_valid example_request example_validated example_env succeeded_def
        status_codes example_empty)
  show ?thesis
    using first sequential_overlap_rejected [OF first refl,
      of "slot_request ''18:00'' ''19:00''"
         "request_by (Str ''bob'') (Some (slot_request ''18:00'' ''19:00''))"
         "slot_request ''18:00'' ''19:00''" "''18:00''" "''19:00''" "''18:00''" "''19:00''"
         "calm ''R2''"]
    by (simp add: example_request example_env)
qed

text \<open>
  Claim C3. Let a stored reservation of the resolved table and the requested date have the
  string interval \<open>[c,d)\<close> with \<open>c \<le> d\<close>. An authenticated, validated request whose start
  is \<open>d\<close>, the stored end, is answered \<open>slot_conflict\<close> when both scans are answered, and
  nothing is written.
\<close>

theorem touching_endpoint_rejected:
  assumes "authenticated ev" and "parsed_body ev = Some rq" and "destructurable rq"
    and "validated rq"
    and "\<not> scan_tables_rejects e" and "\<not> scan_reservations_rejects e"
    and "matching_tables st rq = table # others"
    and "r \<in> set (reservations_table st)"
    and "tableId r = Str (table_id table)" and "date r = get_prop rq ''date''"
    and "time r = Str c" and "slotTimeEnd r = Str d" and "c \<le> d"
    and "get_prop rq ''slotTimeStart'' = Str d"
  shows "handleCreateReservation e ev st = (Inr slot_conflict, st)"
proof -
  have dt: "get_prop rq ''date'' \<noteq> Undefined"
    using assms(4) by (auto simp add: validated_def)
  have "conflict_filter (Str (table_id table)) (get_prop rq ''date'')
      (get_prop rq ''slotTimeStart'') (get_prop rq ''slotTimeEnd'') r"
    using assms(9-14) dt by (simp add: conflict_filter_def ddb_eq_iff ddb_between_def)
  with assms(8) have "conflicting st rq table \<noteq> []"
    by (auto simp add: conflicting_def filter_empty_conv)
  with assms(1-7) show ?thesis
    by (simp add: create_valid)
qed

text \<open>
  With \<open>[10:00,11:00)\<close> booked, the request for \<open>[11:00,12:00)\<close> is answered
  \<open>slot_conflict\<close>.
\<close>

theorem touching_endpoint_rejected_witness:
  "handleCreateReservation (calm ''R2'')
     (request_by (Str ''bob'') (Some (slot_request ''11:00'' ''12:00'')))
     (restaurant [booking ''R1'' ''alice'' ''10:00'' ''11:00''])
   = (Inr slot_conflict, restaurant [booking ''R1'' ''alice'' ''10:00'' ''11:00''])"
proof -
  have r: "booking ''R1'' ''alice'' ''10:00'' ''11:00''
        \<in> set (reservations_table (restaurant [booking ''R1'' ''alice'' ''10:00'' ''11:00'']))"
    "tableId (booking ''R1'' ''alice'' ''10:00'' ''11:00'') = Str (table_id table5)"
    "date (booking ''R1'' ''alice'' ''10:00'' ''11:00'') = Str ''2024-06-01''"
    "time (booking ''R1'' ''alice'' ''10:00'' ''11:00'') = Str ''10:00''"
    "slotTimeEnd (booking ''R1'' ''alice'' ''10:00'' ''11:00'') = Str ''11:00''"
    "(''10:00'' :: string) \<le> ''11:00''"
    by (simp_all add: restaurant_def booking_def table5_def)
  show ?thesis
    using touching_endpoint_rejected [of
        "request_by (Str ''bob'') (Some (slot_request ''11:00'' ''12:00''))"
        "slot_request ''11:00'' ''12:00''" "calm ''R2''"
        "restaurant [booking ''R1'' ''alice'' ''10:00'' ''11:00'']" table5 "[]"
        "booking ''R1'' ''alice'' ''10:00'' ''11:00''" "''10:00''" "''11:00''"]
    by (simp add: example_request example_validated example_env r)
qed

text \<open>
  Claim C4. When the table scan of an authenticated, validated request is answered and no
  table has the requested number, the handler answers \<open>table_not_found\<close> (status 400,
  message "Table not found") and the store is as before.
\<close>

theorem unknown_table_rejected:
  assumes "authenticated ev" and "parsed_body ev = Some rq" and "destructurable rq"
    and "validated rq" and "\<not> scan_tables_rejects e"
    and "matching_tables st rq = []"
  shows "handleCreateReservation e ev st = (Inr table_not_found, st)
     \<and> statusCode table_not_found = 400
     \<and> body table_not_found = Some (JObj [(''message'', JStr ''Table not found'')])"
  using assms by (simp add: create_valid status_codes bodies)

theorem unknown_table_rejected_witness:
  "handleCreateReservation (calm ''R2'')
     (request_by (Str ''bob'')
        (Some (Obj [(''tableNumber'', Num (Finite 7)), (''date'', Str ''2024-06-01''),
                    (''slotTimeStart'', Str ''18:00''), (''slotTimeEnd'', Str ''19:00'')])))
     (restaurant [])
   = (Inr table_not_found, restaurant [])"
  using unknown_table_rejected [of
      "request_by (Str ''bob'')
        (Some (Obj [(''tableNumber'', Num (Finite 7)), (''date'', Str ''2024-06-01''),
                    (''slotTimeStart'', Str ''18:00''), (''slotTimeEnd'', Str ''19:00'')]))"
      "Obj [(''tableNumber'', Num (Finite 7)), (''date'', Str ''2024-06-01''),
            (''slotTimeStart'', Str ''18:00''), (''slotTimeEnd'', Str ''19:00'')]"
      "calm ''R2''" "restaurant []"]
  by (simp add: example_request example_env validated_def matching_tables_def restaurant_def
      table5_def)

text \<open>
  Claim C5, as amended. For an authenticated request whose body parses to a value other
  than \<^verbatim>\<open>null\<close>: when one of \<^verbatim>\<open>tableNumber\<close>, \<^verbatim>\<open>date\<close>, \<^verbatim>\<open>slotTimeStart\<close>,
  \<^verbatim>\<open>slotTimeEnd\<close> is missing or the empty string, the handler answers \<open>missing_fields\<close>
  (status 400, message "Missing required fields.") and the store is as before.
\<close>

theorem missing_field_rejected:
  assumes "authenticated ev" and "parsed_body ev = Some rq" and "destructurable rq"
    and "missing_or_empty (get_prop rq ''tableNumber'') \<or> missing_or_empty (get_prop rq ''date'')
       \<or> missing_or_empty (get_prop rq ''slotTimeStart'')
       \<or> missing_or_empty (get_prop rq ''slotTimeEnd'')"
  shows "handleCreateReservation e ev st = (Inr missing_fields, st)
     \<and> statusCode missing_fields = 400
     \<and> body missing_fields = Some (JObj [(''message'', JStr ''Missing required fields.'')])"
proof -
  have "\<not> validated rq"
    using assms(4) by (auto simp add: validated_def missing_or_empty_def)
  with assms(1-3) show ?thesis
    by (simp add: create_invalid status_codes bodies)
qed

theorem missing_field_rejected_witness:
  "handleCreateReservation (calm ''R2'')
     (request_by (Str ''bob'')
        (Some (Obj [(''tableNumber'', Num (Finite 5)), (''date'', Str ''2024-06-01''),
                    (''slotTimeStart'', Str ''''), (''phoneNumber'', Str ''555-0100'')])))
     (restaurant [])
   = (Inr missing_fields, restaurant [])"
  using missing_field_rejected [of
      "request_by (Str ''bob'')
        (Some (Obj [(''tableNumber'', Num (Finite 5)), (''date'', Str ''2024-06-01''),
                    (''slotTimeStart'', Str ''''), (''phoneNumber'', Str ''555-0100'')]))"
      "Obj [(''tableNumber'', Num (Finite 5)), (''date'', Str ''2024-06-01''),
            (''slotTimeStart'', Str ''''), (''phoneNumber'', Str ''555-0100'')]"
      "calm ''R2''" "restaurant []"]
  by (simp add: example_request missing_or_empty_def)

text \<open>
  Claim C5 as stated fails for a request that has no object to read the fields from: the
  body \<^verbatim>\<open>null\<close> (what \<^verbatim>\<open>JSON.parse\<close> gives for a request with no body) makes
  the destructuring throw before the fields are tested, so the handler does not answer
  \<open>missing_fields\<close>; the dispatcher that called it answers the thrown error with status
  500. Nothing is written.
\<close>

theorem missing_field_rejected_counterexample:
  "authenticated (request_by (Str ''bob'') (Some Null))
   \<and> missing_or_empty (get_prop Null ''tableNumber'')
   \<and> handleCreateReservation (calm ''R2'') (request_by (Str ''bob'') (Some Null)) (restaurant [])
       = (Inl TypeError, restaurant [])
   \<and> fst (handleCreateReservation (calm ''R2'') (request_by (Str ''bob'') (Some Null))
            (restaurant [])) \<noteq> Inr missing_fields"
  by (simp add: create_undestructurable example_request missing_or_empty_def)

text \<open>
  Claim C6. A request without an authenticated identity is answered \<open>unauthorized\<close> (status
  401) whatever its body is, parsed or not, and nothing is written; and whenever the handler
  answers \<open>missing_fields\<close>, the request has an authenticated identity.
\<close>

theorem authorization_before_validation:
  "(\<not> authenticated ev \<longrightarrow>
      handleCreateReservation e ev st = (Inr unauthorized, st) \<and> statusCode unauthorized = 401)
   \<and> (fst (handleCreateReservation e ev st) = Inr missing_fields \<longrightarrow> authenticated ev)"
proof -
  have "fst (handleCreateReservation e ev st) \<noteq> Inr missing_fields" if "\<not> authenticated ev"
    using that by (simp add: create_unauthorized responses_distinct)
  moreover have "handleCreateReservation e ev st = (Inr unauthorized, st)"
    if "\<not> authenticated ev"
    using that by (rule create_unauthorized)
  ultimately show ?thesis
    using status_codes(1) by blast
qed

text \<open>
  A request with no claims and a body without fields is answered \<open>unauthorized\<close>; the same
  body from an authenticated user is answered \<open>missing_fields\<close>.
\<close>

theorem authorization_before_validation_witness:
  "\<not> authenticated (request_by Undefined (Some (Obj [])))
   \<and> handleCreateReservation (calm ''R2'') (request_by Undefined (Some (Obj []))) (restaurant [])
       = (Inr unauthorized, restaurant [])
   \<and> fst (handleCreateReservation (calm ''R2'') (request_by (Str ''bob'') (Some (Obj [])))
            (restaurant [])) = Inr missing_fields
   \<and> authenticated (request_by (Str ''bob'') (Some (Obj [])))"
proof -
  have anon: "\<not> authenticated (request_by Undefined (Some (Obj [])))"
    by (simp add: authenticated_def truthy_username request_by_def)
  have bob: "fst (handleCreateReservation (calm ''R2'')
      (request_by (Str ''bob'') (Some (Obj []))) (restaurant [])) = Inr missing_fields"
    by (simp add: create_invalid example_request validated_def)
  show ?thesis
    using anon bob
      authorization_before_validation [of "request_by Undefined (Some (Obj []))"
        "calm ''R2''" "restaurant []"]
      authorization_before_validation [of "request_by (Str ''bob'') (Some (Obj []))"
        "calm ''R2''" "restaurant []"]
    by simp
qed

text \<open>
  Claim C7. When the handler succeeds (status 200), the store after the call is the store
  before it with one item put into the reservation table, the new reservation, whose
  identifier is the generated one that the response carries; the table of tables is
  untouched. In every other case the store after the call is the store before it, and the
  outcome is one of: \<open>unauthorized\<close>, a thrown error, \<open>missing_fields\<close>, \<open>table_not_found\<close>,
  \<open>slot_conflict\<close>, \<open>internal_error\<close> (a scan or the put rejected).
\<close>

theorem one_write_on_success_only:
  "if succeeded (fst (handleCreateReservation e ev st))
   then \<exists>rq table.
      parsed_body ev = Some rq \<and>
      fst (handleCreateReservation e ev st) = Inr (reservation_created (uuidv4 e)) \<and>
      body (reservation_created (uuidv4 e)) =
        Some (JObj [(''reservationId'', JStr (uuidv4 e)),
                    (''message'', JStr ''Reservation created successfully.'')]) \<and>
      reservation_id (new_reservation e (getUsernameFromToken ev) rq table) = uuidv4 e \<and>
      snd (handleCreateReservation e ev st) =
        st\<lparr>reservations_table :=
             put_item reservation_id (new_reservation e (getUsernameFromToken ev) rq table)
               (reservations_table st)\<rparr>
   else snd (handleCreateReservation e ev st) = st \<and>
      fst (handleCreateReservation e ev st) \<in>
        {Inr unauthorized, Inl SyntaxError, Inl TypeError, Inr missing_fields,
         Inr table_not_found, Inr slot_conflict, Inr internal_error}"
proof (cases "succeeded (fst (handleCreateReservation e ev st))")
  case True
  from create_succeededD[OF True] obtain rq table where
    "parsed_body ev = Some rq"
    "handleCreateReservation e ev st =
       (Inr (reservation_created (uuidv4 e)),
        st\<lparr>reservations_table :=
             put_item reservation_id (new_reservation e (getUsernameFromToken ev) rq table)
               (reservations_table st)\<rparr>)"
    by blast
  then have "\<exists>rq table.
      parsed_body ev = Some rq \<and>
      fst (handleCreateReservation e ev st) = Inr (reservation_created (uuidv4 e)) \<and>
      body (reservation_created (uuidv4 e)) =
        Some (JObj [(''reservationId'', JStr (uuidv4 e)),
                    (''message'', JStr ''Reservation created successfully.'')]) \<and>
      reservation_id (new_reservation e (getUsernameFromToken ev) rq table) = uuidv4 e \<and>
      snd (handleCreateReservation e ev st) =
        st\<lparr>reservations_table :=
             put_item reservation_id (new_reservation e (getUsernameFromToken ev) rq table)
               (reservations_table st)\<rparr>"
    by (intro exI[of _ rq] exI[of _ table]) (simp add: bodies new_reservation_def)
  with True show ?thesis by simp
next
  case False
  with create_failed_frame[OF False] show ?thesis by simp
qed

text \<open>
  Both branches at the restaurant: the request for 18:00 to 19:00 succeeds on the empty
  reservation table and leaves one reservation, with the generated identifier; the request
  for 10:30 to 10:45 against the booking from 10:00 to 11:00 fails and leaves the store as
  it was.
\<close>

theorem one_write_on_success_only_witness:
  "succeeded (fst (handleCreateReservation (calm ''R1'')
       (request_by (Str ''bob'') (Some (slot_request ''18:00'' ''19:00''))) (restaurant [])))
   \<and> map reservation_id (reservations_table (snd (handleCreateReservation (calm ''R1'')
       (request_by (Str ''bob'') (Some (slot_request ''18:00'' ''19:00''))) (restaurant []))))
     = [''R1'']
   \<and> \<not> succeeded (fst (handleCreateReservation (calm ''R2'')
       (request_by (Str ''bob'') (Some (slot_request ''10:30'' ''10:45'')))
       (restaurant [booking ''R1'' ''alice'' ''10:00'' ''11:00''])))
   \<and> snd (handleCreateReservation (calm ''R2'')
       (request_by (Str ''bob'') (Some (slot_request ''10:30'' ''10:45'')))
       (restaurant [booking ''R1'' ''alice'' ''10:00'' ''11:00'']))
     = restaurant [booking ''R1'' ''alice'' ''10:00'' ''11:00'']"
proof -
  have ok: "succeeded (fst (handleCreateReservation (calm ''R1'')
       (request_by (Str ''bob'') (Some (slot_request ''18:00'' ''19:00''))) (restaurant [])))"
    by (simp add: create_valid example_request example_validated example_env succeeded_def
        status_codes example_empty)
  have "conflicting (restaurant [booking ''R1'' ''alice'' ''10:00'' ''11:00''])
          (slot_request ''10:30'' ''10:45'') table5 \<noteq> []"
    by (simp add: conflicting_def example_request conflict_filter_def ddb_between_def
        restaurant_def booking_def table5_def)
  then have ko: "\<not> succeeded (fst (handleCreateReservation (calm ''R2'')
       (request_by (Str ''bob'') (Some (slot_request ''10:30'' ''10:45'')))
       (restaurant [booking ''R1'' ''alice'' ''10:00'' ''11:00''])))"
    by (simp add: create_valid example_request example_validated example_env succeeded_def
        status_codes)
  have put: "map reservation_id (put_item reservation_id r []) = [reservation_id r]" for r
    by (simp add: put_item_def)
  show ?thesis
    using ok ko
      one_write_on_success_only [of "calm ''R1''"
        "request_by (Str ''bob'') (Some (slot_request ''18:00'' ''19:00''))" "restaurant []"]
      one_write_on_success_only [of "calm ''R2''"
        "request_by (Str ''bob'') (Some (slot_request ''10:30'' ''10:45''))"
        "restaurant [booking ''R1'' ''alice'' ''10:00'' ''11:00'']"]
    by (auto simp add: put example_env restaurant_def)
qed

text \<open>
  Claim C9. The validation does not read \<^verbatim>\<open>clientName\<close> or \<^verbatim>\<open>phoneNumber\<close>: an
  authenticated request with the four required fields is never answered \<open>missing_fields\<close>.
  When its table resolves, no stored reservation conflicts and no call of the store
  rejects, the reservation is written with \<open>clientName\<close> and \<open>phoneNumber\<close> as the body has
  them, absent (\<open>Undefined\<close>) when the body has none.
\<close>

theorem client_fields_optional:
  assumes "authenticated ev" and "parsed_body ev = Some rq" and "destructurable rq"
    and "validated rq"
  shows "fst (handleCreateReservation e ev st) \<noteq> Inr missing_fields
     \<and> (\<not> scan_tables_rejects e \<and> \<not> scan_reservations_rejects e \<and> \<not> put_rejects e \<and>
        matching_tables st rq = table # others \<and> conflicting st rq table = [] \<longrightarrow>
        handleCreateReservation e ev st =
          (Inr (reservation_created (uuidv4 e)),
           st\<lparr>reservations_table :=
                put_item reservation_id (new_reservation e (getUsernameFromToken ev) rq table)
                  (reservations_table st)\<rparr>)
        \<and> clientName (new_reservation e (getUsernameFromToken ev) rq table)
            = get_prop rq ''clientName''
        \<and> phoneNumber (new_reservation e (getUsernameFromToken ev) rq table)
            = get_prop rq ''phoneNumber'')"
proof -
  have "fst (handleCreateReservation e ev st) \<noteq> Inr missing_fields"
    using assms
    by (simp add: create_valid responses_distinct responses_distinct[symmetric]
        split: list.splits)
  moreover have "clientName (new_reservation e u rq table) = get_prop rq ''clientName''"
    "phoneNumber (new_reservation e u rq table) = get_prop rq ''phoneNumber''" for u
    by (simp_all add: new_reservation_def)
  ultimately show ?thesis
    using assms by (simp add: create_valid)
qed

text \<open>
  The request for table 5 that has neither \<^verbatim>\<open>clientName\<close> nor \<^verbatim>\<open>phoneNumber\<close> is
  stored, with both attributes absent.
\<close>

theorem client_fields_optional_witness:
  "handleCreateReservation (calm ''R1'')
     (request_by (Str ''bob'') (Some (slot_request ''18:00'' ''19:00''))) (restaurant [])
   = (Inr (reservation_created ''R1''),
      restaurant
        [\<lparr>reservation_id = ''R1'', tableId = Str ''T1'', tableNumber = Num (Finite 5),
          clientName = Undefined, phoneNumber = Undefined, username = Str ''bob'',
          date = Str ''2024-06-01'', time = Str ''18:00'', slotTimeEnd = Str ''19:00'',
          createdAt = Str ''2024-05-31T09:30:00.000Z''\<rparr>])"
proof -
  have new: "new_reservation (calm ''R1'') (Str ''bob'') (slot_request ''18:00'' ''19:00'') table5
    = \<lparr>reservation_id = ''R1'', tableId = Str ''T1'', tableNumber = Num (Finite 5),
          clientName = Undefined, phoneNumber = Undefined, username = Str ''bob'',
          date = Str ''2024-06-01'', time = Str ''18:00'', slotTimeEnd = Str ''19:00'',
          createdAt = Str ''2024-05-31T09:30:00.000Z''\<rparr>"
    by (simp add: new_reservation_def example_request) (simp add: calm_def table5_def)
  have user: "getUsernameFromToken (request_by (Str ''bob'') b) = Str ''bob''" for b
    by (simp add: getUsernameFromToken_def js_or_def request_by_def)
  show ?thesis
    using client_fields_optional [of
        "request_by (Str ''bob'') (Some (slot_request ''18:00'' ''19:00''))"
        "slot_request ''18:00'' ''19:00''" "calm ''R1''" "restaurant []" table5 "[]"]
    by (simp add: example_request example_validated example_env example_empty new user)
       (simp add: restaurant_def put_item_def)
qed

subsection \<open>GET /reservations\<close>

lemma get_reservations_answered:
  assumes "authenticated ev" and "\<not> scan_reservations_rejects e"
  shows "handleGetReservations e ev st =
     formatResponse 200
       (Obj [(''reservations'',
              Arr (map reservation_view
                (if truthy (query_user ev)
                 then filter (\<lambda>item. username item = query_user ev) (reservations_table st)
                 else reservations_table st)))])"
proof (cases "truthy (query_user ev)")
  case True
  have "filter (\<lambda>item. ddb_eq (username item) (query_user ev)) (reservations_table st)
      = filter (\<lambda>item. username item = query_user ev) (reservations_table st)"
    using True by (intro filter_cong refl) (auto simp add: ddb_eq_iff)
  with True assms show ?thesis
    by (simp add: handleGetReservations_def authenticated_def Let_def dynamodb_scan_def)
next
  case False
  with assms show ?thesis
    by (simp add: handleGetReservations_def authenticated_def Let_def dynamodb_scan_def)
qed

text \<open>
  Claim C8, as amended. For an authenticated request whose scan is answered: with a
  non-empty \<^verbatim>\<open>user\<close> parameter \<open>u\<close> the response lists exactly the reservations whose
  \<open>username\<close> is the string \<open>u\<close>, in the order of the scan; with no \<^verbatim>\<open>user\<close> parameter, or
  an empty one, it lists all reservations. Each entry is the projection of the item on
  \<^verbatim>\<open>tableNumber\<close>, \<^verbatim>\<open>clientName\<close>, \<^verbatim>\<open>phoneNumber\<close>, \<^verbatim>\<open>date\<close>, \<^verbatim>\<open>slotTimeStart\<close> (the
  stored \<open>time\<close>) and \<^verbatim>\<open>slotTimeEnd\<close>.
\<close>

theorem reservations_listing:
  assumes "authenticated ev" and "\<not> scan_reservations_rejects e"
  shows "(query_user ev = Str u \<and> u \<noteq> [] \<longrightarrow>
        handleGetReservations e ev st =
          formatResponse 200
            (Obj [(''reservations'',
                   Arr (map reservation_view
                     (filter (\<lambda>item. username item = Str u) (reservations_table st))))]))
     \<and> (query_user ev = Undefined \<or> query_user ev = Str [] \<longrightarrow>
        handleGetReservations e ev st =
          formatResponse 200
            (Obj [(''reservations'', Arr (map reservation_view (reservations_table st)))]))
     \<and> reservation_view item =
         Obj [(''tableNumber'', tableNumber item), (''clientName'', clientName item),
              (''phoneNumber'', phoneNumber item), (''date'', date item),
              (''slotTimeStart'', time item), (''slotTimeEnd'', slotTimeEnd item)]"
  using assms by (auto simp add: get_reservations_answered reservation_view_def)

text \<open>
  With reservations of alice and of bob stored, the query \<^verbatim>\<open>?user=alice\<close> lists the one
  of alice, and the query without parameters lists both.
\<close>

theorem reservations_listing_witness:
  "handleGetReservations (calm ''R3'') (query_by (Str ''carol'') (Some [(''user'', ''alice'')]))
     (restaurant [booking ''R1'' ''alice'' ''10:00'' ''11:00'',
                  booking ''R2'' ''bob'' ''18:00'' ''19:00''])
   = formatResponse 200
       (Obj [(''reservations'',
              Arr [reservation_view (booking ''R1'' ''alice'' ''10:00'' ''11:00'')])])
   \<and> handleGetReservations (calm ''R3'') (query_by (Str ''carol'') None)
     (restaurant [booking ''R1'' ''alice'' ''10:00'' ''11:00'',
                  booking ''R2'' ''bob'' ''18:00'' ''19:00''])
   = formatResponse 200
       (Obj [(''reservations'',
              Arr [reservation_view (booking ''R1'' ''alice'' ''10:00'' ''11:00''),
                   reservation_view (booking ''R2'' ''bob'' ''18:00'' ''19:00'')])])"
proof -
  have auth: "authenticated (query_by (Str ''carol'') q)" for q
    by (simp add: authenticated_def truthy_username query_by_def)
  have q: "query_user (query_by (Str ''carol'') (Some [(''user'', ''alice'')])) = Str ''alice''"
    "query_user (query_by (Str ''carol'') None) = Undefined"
    by (simp_all add: query_user_def query_by_def)
  have names: "username (booking rid who s t) = Str who" for rid who s t
    by (simp add: booking_def)
  show ?thesis
    using
      reservations_listing [of "query_by (Str ''carol'') (Some [(''user'', ''alice'')])"
        "calm ''R3''" "''alice''"
        "restaurant [booking ''R1'' ''alice'' ''10:00'' ''11:00'',
                     booking ''R2'' ''bob'' ''18:00'' ''19:00'']"]
      reservations_listing [of "query_by (Str ''carol'') None" "calm ''R3''" "[]"
        "restaurant [booking ''R1'' ''alice'' ''10:00'' ''11:00'',
                     booking ''R2'' ''bob'' ''18:00'' ''19:00'']"]
    by (simp add: auth q example_env names restaurant_def)
qed

text \<open>
  Claim C8 as stated fails at the empty parameter: the query \<^verbatim>\<open>?user=\<close> is answered
  with the reservation of alice, whose \<open>username\<close> is not the empty string.
\<close>

theorem reservations_listing_counterexample:
  "query_user (query_by (Str ''carol'') (Some [(''user'', '''')])) = Str ''''
   \<and> handleGetReservations (calm ''R3'') (query_by (Str ''carol'') (Some [(''user'', '''')]))
       (restaurant [booking ''R1'' ''alice'' ''10:00'' ''11:00''])
     = formatResponse 200
         (Obj [(''reservations'',
                Arr [reservation_view (booking ''R1'' ''alice'' ''10:00'' ''11:00'')])])
   \<and> username (booking ''R1'' ''alice'' ''10:00'' ''11:00'') \<noteq> Str ''''"
proof -
  have auth: "authenticated (query_by (Str ''carol'') q)" for q
    by (simp add: authenticated_def truthy_username query_by_def)
  have q: "query_user (query_by (Str ''carol'') (Some [(''user'', '''')])) = Str ''''"
    by (simp add: query_user_def query_by_def)
  show ?thesis
    by (simp add: get_reservations_answered auth q example_env)
       (simp add: restaurant_def booking_def)
qed

subsection \<open>Number of a generated identifier\<close>

lemma strip_leading_none:
  "find (\<lambda>w. w \<noteq> [] \<and> take (length w) s = w) ws = None \<Longrightarrow> strip_leading ws s = s"
  by (subst strip_leading.simps) simp

lemma strip_leading_hex:
  assumes "c \<in> set ''0123456789abcdef''"
  shows "strip_leading StrWhiteSpaceChar (c # xs) = c # xs"
    and "strip_leading (map rev StrWhiteSpaceChar) (c # xs) = c # xs"
  using assms
  by (auto intro!: strip_leading_none simp add: find_None_iff StrWhiteSpaceChar_def)

lemma trim_hex_ends:
  assumes "c \<in> set ''0123456789abcdef''" and "d \<in> set ''0123456789abcdef''"
  shows "trim (c # xs @ [d]) = c # xs @ [d]"
  using assms by (simp add: trim_def strip_leading_hex)

lemma uuid_decompose:
  assumes "is_uuid s"
  obtains a b c d e where
    "s = a @ CHR ''-'' # b @ CHR ''-'' # c @ CHR ''-'' # d @ CHR ''-'' # e"
    "length a = 8" "length b = 4" "length c = 4" "length d = 4" "length e = 12"
    "lower_hex a" "lower_hex b" "lower_hex c" "lower_hex d" "lower_hex e"
proof -
  from assms have len: "length s = 36"
    and h: "s ! 8 = CHR ''-''" "s ! 13 = CHR ''-''" "s ! 18 = CHR ''-''" "s ! 23 = CHR ''-''"
    and x: "lower_hex (take 8 s)" "lower_hex (take 4 (drop 9 s))" "lower_hex (take 4 (drop 14 s))"
      "lower_hex (take 4 (drop 19 s))" "lower_hex (drop 24 s)"
    by (simp_all add: is_uuid_def)
  have 1: "s = take 8 s @ s ! 8 # drop 9 s"
    using len id_take_nth_drop[of 8 s] by simp
  have 2: "drop 9 s = take 4 (drop 9 s) @ s ! 13 # drop 14 s"
    using len id_take_nth_drop[of 4 "drop 9 s"] by simp
  have 3: "drop 14 s = take 4 (drop 14 s) @ s ! 18 # drop 19 s"
    using len id_take_nth_drop[of 4 "drop 14 s"] by simp
  have 4: "drop 19 s = take 4 (drop 19 s) @ s ! 23 # drop 24 s"
    using len id_take_nth_drop[of 4 "drop 19 s"] by simp
  have "s = take 8 s @ CHR ''-'' # take 4 (drop 9 s) @ CHR ''-'' # take 4 (drop 14 s) @
      CHR ''-'' # take 4 (drop 19 s) @ CHR ''-'' # drop 24 s"
    using 1 2 3 4 h by metis
  then show thesis
    using len x by (intro that[of "take 8 s" "take 4 (drop 9 s)" "take 4 (drop 14 s)"
          "take 4 (drop 19 s)" "drop 24 s"]) simp_all
qed

lemma uuid_hyphens:
  assumes "is_uuid s"
  shows "4 \<le> count_list s CHR ''-''"
proof -
  from assms obtain a b c d e where
    "s = a @ CHR ''-'' # b @ CHR ''-'' # c @ CHR ''-'' # d @ CHR ''-'' # e"
    by (rule uuid_decompose)
  then show ?thesis by simp
qed

lemma uuid_trim:
  assumes "is_uuid s"
  shows "trim s = s" and "s \<noteq> []"
proof -
  from assms obtain a b c d e where s:
    "s = a @ CHR ''-'' # b @ CHR ''-'' # c @ CHR ''-'' # d @ CHR ''-'' # e"
    and "length a = 8" "length e = 12" "lower_hex a" "lower_hex e"
    by (rule uuid_decompose)
  then obtain x a' e' y where a: "a = x # a'" "x \<in> set ''0123456789abcdef''"
    and e: "e = e' @ [y]" "y \<in> set ''0123456789abcdef''"
    by (cases a; cases e rule: rev_cases) (auto simp add: lower_hex_def)
  define m where "m = a' @ CHR ''-'' # b @ CHR ''-'' # c @ CHR ''-'' # d @ CHR ''-'' # e'"
  have eq: "s = x # m @ [y]"
    by (simp add: s a e m_def)
  have "trim (x # m @ [y]) = x # m @ [y]"
    using a(2) e(2) by (rule trim_hex_ends)
  then show "trim s = s"
    by (simp only: eq)
  show "s \<noteq> []"
    by (simp add: eq)
qed

lemma digits_no_hyphen: "list_all is_digit s \<Longrightarrow> count_list s CHR ''-'' = 0"
  by (induction s) (auto simp add: is_digit_def)

lemma takeWhile_digits_no_hyphen: "count_list (takeWhile is_digit s) CHR ''-'' = 0"
  by (rule digits_no_hyphen) (auto simp add: list_all_iff dest: set_takeWhileD)

lemma SignedInteger_hyphens: "SignedInteger s \<Longrightarrow> count_list s CHR ''-'' \<le> 1"
  by (cases s) (auto simp add: DecimalDigits_def digits_no_hyphen split: if_splits)

lemma ExponentPart_hyphens: "ExponentPart s \<Longrightarrow> count_list s CHR ''-'' \<le> 1"
  by (cases s) (auto dest: SignedInteger_hyphens)

lemma Unsigned_hyphens:
  assumes "StrUnsignedDecimalLiteral s"
  shows "count_list s CHR ''-'' \<le> 1"
proof (cases "s = ''Infinity''")
  case True
  then show ?thesis by simp
next
  case False
  let ?i = "takeWhile is_digit s" and ?r = "dropWhile is_digit s"
  have split: "count_list s CHR ''-'' = count_list ?r CHR ''-''"
    using takeWhile_digits_no_hyphen[of s] count_list_append[of ?i ?r "CHR ''-''"] by simp
  show ?thesis
  proof (cases ?r)
    case Nil
    show ?thesis unfolding split Nil by simp
  next
    case (Cons c r')
    show ?thesis
    proof (cases "c = CHR ''.''")
      case dot: True
      let ?x = "dropWhile is_digit r'"
      have tail: "count_list r' CHR ''-'' = count_list ?x CHR ''-''"
        using takeWhile_digits_no_hyphen[of r']
          count_list_append[of "takeWhile is_digit r'" ?x "CHR ''-''"] by simp
      have "?x = [] \<or> ExponentPart ?x"
        using assms False Cons dot by (simp add: StrUnsignedDecimalLiteral_def Let_def)
      then have "count_list ?x CHR ''-'' \<le> 1"
      proof
        assume e: "?x = []"
        show ?thesis unfolding e by simp
      next
        assume "ExponentPart ?x"
        then show ?thesis by (rule ExponentPart_hyphens)
      qed
      moreover have "count_list ?r CHR ''-'' = count_list r' CHR ''-''"
        unfolding Cons dot by simp
      ultimately show ?thesis
        unfolding split tail by simp
    next
      case nodot: False
      then have "ExponentPart ?r"
        using assms False Cons by (simp add: StrUnsignedDecimalLiteral_def Let_def)
      then have "count_list ?r CHR ''-'' \<le> 1"
        by (rule ExponentPart_hyphens)
      then show ?thesis unfolding split .
    qed
  qed
qed

lemma StrDecimalLiteral_hyphens: "StrDecimalLiteral s \<Longrightarrow> count_list s CHR ''-'' \<le> 2"
  by (cases s) (auto dest: Unsigned_hyphens split: if_splits)

lemma list_all_excludes:
  "list_all (\<lambda>c. c \<in> set cs) ds \<Longrightarrow> x \<notin> set cs \<Longrightarrow> count_list ds x = 0"
  by (induction ds) auto

lemma NonDecimal_hyphens:
  assumes "NonDecimalIntegerLiteral s"
  shows "count_list s CHR ''-'' = 0"
proof -
  from assms obtain z p ds where 1: "s = z # p # ds"
    by (cases s; cases "tl s") auto
  from assms have z: "z = CHR ''0''"
    unfolding 1 by simp
  have p: "p \<noteq> CHR ''-''"
    using assms unfolding 1 by (auto split: if_splits)
  have "list_all (\<lambda>c. c \<in> set ''01'') ds \<or> list_all (\<lambda>c. c \<in> set ''01234567'') ds
       \<or> list_all (\<lambda>c. c \<in> set ''0123456789abcdefABCDEF'') ds"
    using assms unfolding 1 NonDecimalIntegerLiteral.simps is_hex_digit_def
    by (meson)
  then have "count_list ds CHR ''-'' = 0"
  proof (elim disjE)
    assume "list_all (\<lambda>c. c \<in> set ''01'') ds"
    then show ?thesis by (rule list_all_excludes) simp
  next
    assume "list_all (\<lambda>c. c \<in> set ''01234567'') ds"
    then show ?thesis by (rule list_all_excludes) simp
  next
    assume "list_all (\<lambda>c. c \<in> set ''0123456789abcdefABCDEF'') ds"
    then show ?thesis by (rule list_all_excludes) simp
  qed
  with z p show ?thesis
    unfolding 1 by simp
qed

lemma uuid_not_numeric:
  assumes "is_uuid s"
  shows "StringToNumber s = NaN"
proof -
  have "\<not> StrDecimalLiteral s"
    using uuid_hyphens[OF assms] StrDecimalLiteral_hyphens[of s] by auto
  moreover have "\<not> NonDecimalIntegerLiteral s"
    using uuid_hyphens[OF assms] NonDecimal_hyphens[of s] by auto
  ultimately show ?thesis
    using uuid_trim[OF assms] by (simp add: StringToNumber_def)
qed

lemma example_uuid: "is_uuid ''3f2504e0-4f89-41d3-9a0c-0305e82c3301''"
  by (simp add: is_uuid_def lower_hex_def)

subsection \<open>The table handlers\<close>

lemma get_tables_answered:
  assumes "authenticated ev" and "\<not> scan_tables_rejects e"
  shows "handleGetTables e ev st =
     formatResponse 200 (Obj [(''tables'', Arr (map table_view (tables_table st)))])"
  using assms by (simp add: handleGetTables_def authenticated_def dynamodb_scan_def)

lemma get_table_answered:
  assumes "authenticated ev" and "\<not> get_rejects e" and "path_tableId ev = Str k"
    and "find (\<lambda>x. table_id x = k) (tables_table st) = Some item"
  shows "handleGetTableById e ev st = formatResponse 200 (table_view item)"
  using assms by (simp add: handleGetTableById_def authenticated_def dynamodb_get_def)

lemma stringify_table_views: "stringify_elems (map table_view items) = map table_json items"
  by (induction items) (simp_all add: table_json_def)

lemma table_json_id:
  "json_prop (table_json item) ''id'' = Some (json_of_number (StringToNumber (table_id item)))"
  by (simp add: table_json_def table_view_def json_prop_def)

lemma body_table_view: "body (formatResponse 200 (table_view item)) = Some (table_json item)"
  by (simp add: formatResponse_def table_json_def table_view_def)

lemma create_table_without_id:
  assumes "authenticated ev" and "parsed_body ev = Some tb" and "destructurable tb"
    and "typeof_number (get_prop tb ''number'')" and "typeof_number (get_prop tb ''places'')"
    and "typeof_boolean (get_prop tb ''isVip'')" and "\<not> truthy (get_prop tb ''id'')"
    and "\<not> put_rejects e"
  shows "handleCreateTable ft e ev st =
     (Inr (formatResponse 200 (Obj [(''id'', Str (uuidv4 e))])),
      st\<lparr>tables_table :=
           put_item table_id
             \<lparr>table_id = uuidv4 e, number = get_prop tb ''number'',
              places = get_prop tb ''places'', isVip = get_prop tb ''isVip'',
              minOrder = js_or (get_prop tb ''minOrder'') (Num (Finite 0))\<rparr>
             (tables_table st)\<rparr>)"
  using assms
  by (simp add: handleCreateTable_def authenticated_def Let_def js_or_def dynamodb_put_def)

text \<open>
  Claim C10, as amended. \<^verbatim>\<open>GET /tables\<close> and \<^verbatim>\<open>GET /tables/{tableId}\<close> answer with
  \<^verbatim>\<open>Number(id)\<close> in the place of the table's id. For a table whose stored id is not numeric,
  and so for every id of the form \<^verbatim>\<open>uuidv4()\<close> generates, that value is \<^verbatim>\<open>NaN\<close>, and the
  id in the JSON body of the response is \<^verbatim>\<open>null\<close>, not the stored string.
\<close>

theorem table_id_coerced:
  assumes "authenticated ev"
    and "is_uuid (table_id item) \<or> StringToNumber (table_id item) = NaN"
  shows "(\<not> scan_tables_rejects e \<longrightarrow>
        body (handleGetTables e ev st) =
          Some (JObj [(''tables'', JArr (map table_json (tables_table st)))]))
     \<and> (\<not> get_rejects e \<and> path_tableId ev = Str (table_id item) \<and>
        find (\<lambda>x. table_id x = table_id item) (tables_table st) = Some item \<longrightarrow>
        body (handleGetTableById e ev st) = Some (table_json item))
     \<and> get_prop (table_view item) ''id'' = Num NaN
     \<and> json_prop (table_json item) ''id'' = Some JNull"
proof -
  have nan: "StringToNumber (table_id item) = NaN"
    using assms(2) uuid_not_numeric by blast
  have "body (handleGetTables e ev st) =
          Some (JObj [(''tables'', JArr (map table_json (tables_table st)))])"
    if "\<not> scan_tables_rejects e"
    using assms(1) that
    by (simp add: get_tables_answered formatResponse_def stringify_table_views)
  moreover have "body (handleGetTableById e ev st) = Some (table_json item)"
    if "\<not> get_rejects e" "path_tableId ev = Str (table_id item)"
      "find (\<lambda>x. table_id x = table_id item) (tables_table st) = Some item"
    using assms(1) that by (simp add: get_table_answered body_table_view)
  moreover have "get_prop (table_view item) ''id'' = Num NaN"
    by (simp add: table_view_def nan)
  moreover have "json_prop (table_json item) ''id'' = Some JNull"
    by (simp add: table_json_id nan)
  ultimately show ?thesis by blast
qed

lemma example_tables:
  "authenticated (table_request b)" "authenticated (table_query k)"
  "parsed_body (table_request b) = Some b"
  "path_tableId (table_query k) = Str k"
  "destructurable new_table"
  "typeof_number (get_prop new_table ''number'')"
  "typeof_number (get_prop new_table ''places'')"
  "typeof_boolean (get_prop new_table ''isVip'')"
  "\<not> truthy (get_prop new_table ''id'')"
  "js_or (get_prop new_table ''minOrder'') (Num (Finite 0)) = Num (Finite 0)"
  "get_prop new_table ''number'' = Num (Finite 5)"
  "get_prop new_table ''places'' = Num (Finite 4)"
  "get_prop new_table ''isVip'' = Bool False"
  by (simp_all add: table_request_def table_query_def authenticated_def truthy_username
      path_tableId_def new_table_def typeof_number_def typeof_boolean_def js_or_def)

lemma example_created:
  "snd (handleCreateTable ft (calm ''3f2504e0-4f89-41d3-9a0c-0305e82c3301'')
          (table_request new_table) \<lparr>tables_table = [], reservations_table = []\<rparr>)
   = \<lparr>tables_table = [uuid_table], reservations_table = []\<rparr>"
  by (simp add: create_table_without_id example_tables example_env put_item_def uuid_table_def
      typeof_number_def typeof_boolean_def)

lemma uuid_table_json:
  "table_json uuid_table =
     JObj [(''id'', JNull), (''number'', JNum 5), (''places'', JNum 4),
           (''isVip'', JBool False), (''minOrder'', JNum 0)]"
proof -
  have "StringToNumber (table_id uuid_table) = NaN"
    by (rule uuid_not_numeric) (simp add: uuid_table_def example_uuid)
  then show ?thesis
    by (simp add: table_json_def table_view_def) (simp add: uuid_table_def js_or_def)
qed

text \<open>
  A table posted without an id is stored under the generated identifier; both requests
  then answer with the id \<^verbatim>\<open>null\<close>.
\<close>

theorem table_id_coerced_witness:
  "is_uuid (table_id uuid_table)
   \<and> snd (handleCreateTable (\<lambda>r. []) (calm ''3f2504e0-4f89-41d3-9a0c-0305e82c3301'')
          (table_request new_table) \<lparr>tables_table = [], reservations_table = []\<rparr>)
     = \<lparr>tables_table = [uuid_table], reservations_table = []\<rparr>
   \<and> body (handleGetTables (calm []) (table_query ''3f2504e0-4f89-41d3-9a0c-0305e82c3301'')
        \<lparr>tables_table = [uuid_table], reservations_table = []\<rparr>)
     = Some (JObj [(''tables'', JArr [table_json uuid_table])])
   \<and> body (handleGetTableById (calm []) (table_query ''3f2504e0-4f89-41d3-9a0c-0305e82c3301'')
        \<lparr>tables_table = [uuid_table], reservations_table = []\<rparr>)
     = Some (table_json uuid_table)
   \<and> json_prop (table_json uuid_table) ''id'' = Some JNull"
proof -
  have u: "is_uuid (table_id uuid_table)"
    "table_id uuid_table = ''3f2504e0-4f89-41d3-9a0c-0305e82c3301''"
    by (simp_all add: uuid_table_def example_uuid)
  have env: "\<not> scan_tables_rejects (calm [])" "\<not> get_rejects (calm [])"
    by (simp_all add: calm_def)
  show ?thesis
    using table_id_coerced [of "table_query ''3f2504e0-4f89-41d3-9a0c-0305e82c3301''"
        uuid_table "calm []" "\<lparr>tables_table = [uuid_table], reservations_table = []\<rparr>"]
    by (simp add: u env example_tables example_created example_uuid)
qed

text \<open>
  Claim C10 as stated fails in the response itself: for the table stored under a generated
  identifier, the body of both responses has the id \<^verbatim>\<open>null\<close>, which is what
  \<^verbatim>\<open>JSON.stringify\<close> writes for \<^verbatim>\<open>NaN\<close>.
\<close>

theorem table_id_coerced_counterexample:
  "is_uuid (table_id uuid_table)
   \<and> JSON_stringify (Num NaN) = Some JNull
   \<and> body (handleGetTables (calm []) (table_query ''3f2504e0-4f89-41d3-9a0c-0305e82c3301'')
        \<lparr>tables_table = [uuid_table], reservations_table = []\<rparr>)
     = Some (JObj [(''tables'',
          JArr [JObj [(''id'', JNull), (''number'', JNum 5), (''places'', JNum 4),
                      (''isVip'', JBool False), (''minOrder'', JNum 0)]])])
   \<and> body (handleGetTableById (calm []) (table_query ''3f2504e0-4f89-41d3-9a0c-0305e82c3301'')
        \<lparr>tables_table = [uuid_table], reservations_table = []\<rparr>)
     = Some (JObj [(''id'', JNull), (''number'', JNum 5), (''places'', JNum 4),
                   (''isVip'', JBool False), (''minOrder'', JNum 0)])"
proof -
  have u: "is_uuid (table_id uuid_table)"
    "table_id uuid_table = ''3f2504e0-4f89-41d3-9a0c-0305e82c3301''"
    by (simp_all add: uuid_table_def example_uuid)
  have env: "\<not> scan_tables_rejects (calm [])" "\<not> get_rejects (calm [])"
    by (simp_all add: calm_def)
  have all: "body (handleGetTables (calm [])
        (table_query ''3f2504e0-4f89-41d3-9a0c-0305e82c3301'')
        \<lparr>tables_table = [uuid_table], reservations_table = []\<rparr>)
     = Some (JObj [(''tables'', JArr [table_json uuid_table])])"
    by (simp add: get_tables_answered example_tables env formatResponse_def table_json_def)
  have one: "body (handleGetTableById (calm [])
        (table_query ''3f2504e0-4f89-41d3-9a0c-0305e82c3301'')
        \<lparr>tables_table = [uuid_table], reservations_table = []\<rparr>)
     = Some (table_json uuid_table)"
    using get_table_answered [of "table_query ''3f2504e0-4f89-41d3-9a0c-0305e82c3301''"
        "calm []" "''3f2504e0-4f89-41d3-9a0c-0305e82c3301''"
        "\<lparr>tables_table = [uuid_table], reservations_table = []\<rparr>" uuid_table]
    by (simp add: example_tables env u body_table_view)
  show ?thesis
    using u(1) all one by (simp add: uuid_table_json)
qed


end
